theory Spec2Isabelle
  imports Complex_Main "HOL-Library.Product_Lexorder"
begin

section \<open>Stock analysis: the tabular core of \<open>Stock_Analysis.py\<close>\<close>

text \<open>
  The program keeps three pandas tables (daily stock prices, company metadata, daily index
  level) and derives from them what three views plot. The theory embeds the filtering and
  aggregation of the source together with the handlers that call it: a table is the list of
  its rows in row order, a missing cell (NaN, NaT) is \<open>None\<close>, an exception is the left
  summand of a sum, the in-place assignment to a column is an updated state that the
  function returns, and what a handler shows to the user is the list of its user-interface
  events.

  Prices are pandas floats. A float is the real number it stands for, with \<open>None\<close> for
  NaN: comparisons, maxima and minima of floats are exact. The mean of a group is not, and
  is what the library computes: a parameter. So are the two other library functions whose
  reading of a text decides what the code does, \<open>pd.to_datetime\<close> and the builtin \<open>int\<close>.
\<close>

subsection \<open>Exceptions\<close>

datatype py_error = ValueError | IndexError | AttributeError | KeyError

subsection \<open>The builtin \<open>int\<close> on strings\<close>

text \<open>
  The builtin \<open>int\<close> is library code. A Python text is a list of code points, of a type
  that is left open, and \<open>len\<close> is the length of that list. How \<open>int\<close> reads a text is a
  parameter \<open>int_str\<close> of the functions that call it: \<open>None\<close> when it raises
  ValueError, the integer otherwise.

  The examples need an instance. \<open>int_latin1\<close> is \<open>int\<close> in base 10 on the texts of type
  \<^typ>\<open>string\<close>, whose code points are below 256: surrounding white space is stripped, one
  sign is allowed, then come decimal digits, where a single underscore may stand between
  two digits; anything else is refused. Below 256 the white space that \<open>int\<close> strips is 9
  to 13, 32, 133 and 160, and the decimal digits are \<open>0\<close> to \<open>9\<close>.
\<close>

definition is_space :: "char \<Rightarrow> bool" where
  "is_space c =
     (let n = (of_char c :: nat)
      in (9 \<le> n \<and> n \<le> 13) \<or> n = 32 \<or> n = 133 \<or> n = 160)"

definition is_digit :: "char \<Rightarrow> bool" where
  "is_digit c = (let n = (of_char c :: nat) in 48 \<le> n \<and> n \<le> 57)"

definition digit_val :: "char \<Rightarrow> int" where
  "digit_val c = int (of_char c) - 48"

definition strip :: "string \<Rightarrow> string" where
  "strip s = rev (dropWhile is_space (rev (dropWhile is_space s)))"

fun digits_acc :: "int \<Rightarrow> string \<Rightarrow> int option" where
  "digits_acc acc [] = Some acc"
| "digits_acc acc [c] = (if is_digit c then Some (acc * 10 + digit_val c) else None)"
| "digits_acc acc (c # d # cs) =
     (if is_digit c then digits_acc (acc * 10 + digit_val c) (d # cs)
      else if c = CHR ''_'' \<and> is_digit d then digits_acc acc (d # cs)
      else None)"

definition unsigned_int :: "string \<Rightarrow> int option" where
  "unsigned_int s =
     (case s of [] \<Rightarrow> None
      | c # cs \<Rightarrow> if is_digit c then digits_acc 0 s else None)"

definition int_latin1 :: "string \<Rightarrow> int option" where
  "int_latin1 s =
     (case strip s of [] \<Rightarrow> None
      | c # cs \<Rightarrow>
          if c = CHR ''-'' then map_option uminus (unsigned_int cs)
          else if c = CHR ''+'' then unsigned_int cs
          else unsigned_int (c # cs))"

subsection \<open>Sector view: validation of the two year fields\<close>

text \<open>
  \<open>SectorPerformanceGUI.validate_years\<close>. The length test comes first and is outside the
  \<open>try\<close>; both conversions are inside it, so a ValueError of either gives the last
  message.
\<close>

definition quoted :: "string \<Rightarrow> string" where
  \<comment> \<open>A name between two single quotes, as the messages have it.\<close>
  "quoted s = CHR 0x27 # s @ [CHR 0x27]"

definition validate_years :: "('c list \<Rightarrow> int option) \<Rightarrow> 'c list \<Rightarrow> 'c list \<Rightarrow> string" where
  "validate_years int_str from_year to_year =
     (if length from_year \<noteq> 4 \<or> length to_year \<noteq> 4
      then quoted ''From Year'' @ '' and '' @ quoted ''To Year''
             @ '' must be 4-digit numbers.''
      else case int_str from_year of
        None \<Rightarrow> ''Please enter valid 4-digit years.''
      | Some from_year_int \<Rightarrow>
          (case int_str to_year of
             None \<Rightarrow> ''Please enter valid 4-digit years.''
           | Some to_year_int \<Rightarrow>
               if \<not> (2014 \<le> from_year_int \<and> from_year_int \<le> 2024)
                  \<or> \<not> (2014 \<le> to_year_int \<and> to_year_int \<le> 2024)
               then ''Years must be between 2014 and 2024.''
               else if from_year_int > to_year_int
               then quoted ''From Year'' @ '' should be <= '' @ quoted ''To Year'' @ ''.''
               else ''''))"

subsection \<open>Dates\<close>

text \<open>
  A cell of a Date column is the text read from the file (\<open>DateStr\<close>) or, once the column
  has gone through \<open>pd.to_datetime\<close>, a datetime value: a timestamp or NaT
  (\<open>Datetime None\<close>). The accessor \<open>.dt.year\<close> of NaT is NaN, and every comparison
  with NaN is false.
\<close>

record timestamp =
  dt_year :: int
  dt_month :: int
  dt_day :: int

datatype date_cell = DateStr string | Datetime "timestamp option"

fun cell_year :: "date_cell \<Rightarrow> int option" where
  "cell_year (Datetime (Some t)) = Some (dt_year t)"
| "cell_year _ = None"

fun cell_month :: "date_cell \<Rightarrow> int option" where
  "cell_month (Datetime (Some t)) = Some (dt_month t)"
| "cell_month _ = None"

definition ts_key :: "timestamp \<Rightarrow> int \<times> int \<times> int" where
  \<comment> \<open>The order of timestamps is the order of (year, month, day).\<close>
  "ts_key t = (dt_year t, dt_month t, dt_day t)"

text \<open>
  \<open>pd.to_datetime\<close> is library code. How it reads a text is a parameter \<open>parse\<close>:
  \<open>None\<close> when the text is refused (the call raises ValueError), \<open>Some None\<close> when
  it reads as NaT, \<open>Some (Some t)\<close> for a timestamp. Each text is read by itself, as the
  dates of one file, written in one format, are. A cell that is a datetime already is
  kept. The column is converted as a whole: one refused cell and the call raises.
\<close>

type_synonym parser = "string \<Rightarrow> timestamp option option"

fun to_datetime_cell :: "parser \<Rightarrow> date_cell \<Rightarrow> py_error + date_cell" where
  "to_datetime_cell parse (DateStr s) =
     (case parse s of None \<Rightarrow> Inl ValueError | Some d \<Rightarrow> Inr (Datetime d))"
| "to_datetime_cell parse (Datetime d) = Inr (Datetime d)"

fun to_datetime :: "parser \<Rightarrow> date_cell list \<Rightarrow> py_error + date_cell list" where
  "to_datetime parse [] = Inr []"
| "to_datetime parse (c # cs) =
     (case to_datetime_cell parse c of
        Inl e \<Rightarrow> Inl e
      | Inr d \<Rightarrow>
          (case to_datetime parse cs of
             Inl e \<Rightarrow> Inl e
           | Inr ds \<Rightarrow> Inr (d # ds)))"

subsection \<open>The three tables\<close>

text \<open>
  The columns are those the code reads. \<open>Symbol\<close> is a text in every row, as a join
  key is. A price is \<open>None\<close> where the file has no value.
  \<open>Sector\<close>, \<open>Shortname\<close>, \<open>Longname\<close> and \<open>Revenuegrowth\<close> may be missing as well.
\<close>

record stock_row =
  Symbol :: string
  Date :: date_cell
  Open :: "real option"
  High :: "real option"
  Low :: "real option"
  Close :: "real option"

record company_row =
  c_Symbol :: string
  Sector :: "string option"
  Shortname :: "string option"
  Longname :: "string option"
  Revenuegrowth :: "real option"

record index_row =
  i_Date :: date_cell
  SP500 :: "real option"

text \<open>
  The tables are shared by the views and assigned to in place, so they are a state:
  \<open>self.stocks_df\<close>, \<open>self.companies_df\<close>, \<open>self.index_df\<close>.
\<close>

record tables =
  stocks_df :: "stock_row list"
  companies_df :: "company_row list"
  index_df :: "index_row list"

definition assign_Date :: "stock_row list \<Rightarrow> date_cell list \<Rightarrow> stock_row list" where
  \<comment> \<open>\<open>df["Date"] = column\<close>, row by row.\<close>
  "assign_Date df col = map (\<lambda>(r, d). r\<lparr>Date := d\<rparr>) (zip df col)"

definition assign_i_Date :: "index_row list \<Rightarrow> date_cell list \<Rightarrow> index_row list" where
  "assign_i_Date df col = map (\<lambda>(r, d). r\<lparr>i_Date := d\<rparr>) (zip df col)"

subsection \<open>Series and their aggregates\<close>

text \<open>
  A series is the list of its (index, value) pairs. \<open>mean\<close>, \<open>max\<close> and \<open>min\<close> of
  pandas skip the missing values and give NaN when nothing is left. The maximum and the
  minimum of floats are exact. The mean is not: it is the float64 mean that pandas
  computes from the values present, in the order of the rows. That computation is library
  code and a parameter \<open>fmean\<close>, from the list of the values present, which is not empty,
  to the mean; \<open>None\<close> stands for a result that is no finite number.
\<close>

type_synonym series = "(date_cell \<times> real option) list"

definition present :: "real option list \<Rightarrow> real list" where
  "present xs = List.map_filter id xs"

type_synonym float_mean = "real list \<Rightarrow> real option"

definition series_mean :: "float_mean \<Rightarrow> real option list \<Rightarrow> real option" where
  "series_mean fmean xs = (case present xs of [] \<Rightarrow> None | y # ys \<Rightarrow> fmean (y # ys))"

definition series_max :: "real option list \<Rightarrow> real option" where
  "series_max xs = (case present xs of [] \<Rightarrow> None | y # ys \<Rightarrow> Some (fold max ys y))"

definition series_min :: "real option list \<Rightarrow> real option" where
  "series_min xs = (case present xs of [] \<Rightarrow> None | y # ys \<Rightarrow> Some (fold min ys y))"

subsection \<open>Sector view: join, filter, mean per date\<close>

text \<open>
  \<open>pd.merge(stocks, companies[["Symbol", "Sector", "Longname"]], on="Symbol", how="left")\<close>:
  the rows of the left table in their order, each once per company record of its Symbol,
  and once with missing \<open>Sector\<close> and \<open>Longname\<close> when no company record has its Symbol.
\<close>

record merged_row =
  stock :: stock_row
  m_Sector :: "string option"
  m_Longname :: "string option"

definition merge_left :: "stock_row list \<Rightarrow> company_row list \<Rightarrow> merged_row list" where
  "merge_left left right =
     concat (map (\<lambda>s.
       case filter (\<lambda>c. c_Symbol c = Symbol s) right of
         [] \<Rightarrow> [\<lparr>stock = s, m_Sector = None, m_Longname = None\<rparr>]
       | c # cs \<Rightarrow>
           map (\<lambda>c. \<lparr>stock = s, m_Sector = Sector c, m_Longname = Longname c\<rparr>) (c # cs))
       left)"

definition year_between :: "date_cell \<Rightarrow> int \<Rightarrow> int \<Rightarrow> bool" where
  \<comment> \<open>\<open>(col.dt.year >= from_year) & (col.dt.year <= to_year)\<close> at one cell.\<close>
  "year_between d from_year to_year =
     (case cell_year d of None \<Rightarrow> False | Some y \<Rightarrow> y \<ge> from_year \<and> y \<le> to_year)"

text \<open>
  \<open>sector_df.groupby("Date")["Close"].mean()\<close>: the keys are the distinct dates in
  ascending order, NaT is no key, and the value of a key is the mean of \<open>Close\<close> over the
  rows of that date.
\<close>

definition group_keys :: "date_cell list \<Rightarrow> timestamp list" where
  "group_keys col =
     sort_key ts_key
       (remdups (List.map_filter (\<lambda>d. case d of Datetime (Some t) \<Rightarrow> Some t | _ \<Rightarrow> None) col))"

definition groupby_Date_Close_mean :: "float_mean \<Rightarrow> merged_row list \<Rightarrow> series" where
  "groupby_Date_Close_mean fmean df =
     map (\<lambda>t. (Datetime (Some t),
                series_mean fmean (map (Close \<circ> stock)
                  (filter (\<lambda>r. Date (stock r) = Datetime (Some t)) df))))
       (group_keys (map (Date \<circ> stock) df))"

text \<open>
  \<open>SectorPerformanceGUI.filter_data_by_sector_and_year\<close>. The first two statements
  assign the converted Date columns to the shared tables; a conversion that raises leaves
  what was assigned before it. The result is the pair of series and the tables as the
  call leaves them.
\<close>

definition filter_data_by_sector_and_year ::
  "float_mean \<Rightarrow> parser \<Rightarrow> tables \<Rightarrow> string \<Rightarrow> int \<Rightarrow> int
     \<Rightarrow> (py_error + series \<times> series) \<times> tables" where
  "filter_data_by_sector_and_year fmean parse self selected_sector from_year to_year =
     (case to_datetime parse (map Date (stocks_df self)) of
        Inl e \<Rightarrow> (Inl e, self)
      | Inr stock_dates \<Rightarrow>
          (let self1 = self\<lparr>stocks_df := assign_Date (stocks_df self) stock_dates\<rparr>
           in case to_datetime parse (map i_Date (index_df self1)) of
                Inl e \<Rightarrow> (Inl e, self1)
              | Inr index_dates \<Rightarrow>
                  (let self2 = self1\<lparr>index_df := assign_i_Date (index_df self1) index_dates\<rparr>;
                       merged_df = merge_left (stocks_df self2) (companies_df self2);
                       sector_df = filter (\<lambda>r. m_Sector r = Some selected_sector
                                        \<and> year_between (Date (stock r)) from_year to_year)
                                     merged_df;
                       sector_performance = groupby_Date_Close_mean fmean sector_df;
                       index_performance =
                         map (\<lambda>r. (i_Date r, SP500 r))
                           (filter (\<lambda>r. year_between (i_Date r) from_year to_year)
                              (index_df self2))
                   in (Inr (sector_performance, index_performance), self2))))"

text \<open>
  The two series as functions of the tables after the conversion: they name the two
  expressions of the function body, for the proofs.
\<close>

definition sector_series ::
  "float_mean \<Rightarrow> stock_row list \<Rightarrow> company_row list \<Rightarrow> string \<Rightarrow> int \<Rightarrow> int \<Rightarrow> series" where
  "sector_series fmean stocks companies selected_sector from_year to_year =
     groupby_Date_Close_mean fmean
       (filter (\<lambda>r. m_Sector r = Some selected_sector
                  \<and> year_between (Date (stock r)) from_year to_year)
          (merge_left stocks companies))"

definition index_series :: "index_row list \<Rightarrow> int \<Rightarrow> int \<Rightarrow> series" where
  "index_series idx from_year to_year =
     map (\<lambda>r. (i_Date r, SP500 r))
       (filter (\<lambda>r. year_between (i_Date r) from_year to_year) idx)"

definition converted :: "parser \<Rightarrow> date_cell \<Rightarrow> date_cell" where
  \<comment> \<open>The cell after a conversion that did not raise.\<close>
  "converted parse c = (case to_datetime_cell parse c of Inr d \<Rightarrow> d | Inl e \<Rightarrow> c)"

subsection \<open>Formatted text and what the views show\<close>

text \<open>
  An f-string is the list of its parts: the literal text and the formatted values.
  A chart is the data and the titles it is given; each handler returns the list of
  the message boxes and charts it shows.
\<close>

datatype fpart = Lit string | FStr string | FInt int | FFloat "real option"

type_synonym ftext = "fpart list"

record line =
  l_x :: "date_cell list"
  l_y :: "real option list"
  l_label :: ftext
  l_color :: string

record sector_figure =
  ax1_line :: line
  ax2_line :: line
  ax1_xlabel :: string
  ax1_ylabel :: ftext
  ax2_ylabel :: string
  ax1_title :: ftext

record joined_row =
  j_stock :: stock_row
  j_Sector :: "string option"
  j_Shortname :: "string option"
  j_Revenuegrowth :: "real option"

record revenue_row = joined_row +
  Year :: "int option"

record scatter =
  sc_data :: "revenue_row list"
  sc_x :: string
  sc_y :: string
  sc_color :: string
  sc_hover_data :: "string list"
  sc_title :: ftext
  sc_yaxis_title :: string
  sc_legend_title :: string

record trace =
  tr_x :: "date_cell list"
  tr_y :: "real option list"
  tr_mode :: string
  tr_name :: string

record annotation =
  an_x :: date_cell
  an_y :: "real option"
  an_text :: ftext
  an_showarrow :: bool
  an_arrowhead :: int

record figure =
  traces :: "trace list"
  annotations :: "annotation list"
  fig_title :: ftext
  fig_xaxis_title :: string
  fig_yaxis_title :: string

datatype ui_event =
    MessageBoxWarning string ftext
  | ShowSectorFigure sector_figure
  | ShowScatter scatter
  | ShowFigure figure

subsection \<open>Sector view: the handler\<close>

definition plot_sector_analysis ::
  "series \<Rightarrow> series \<Rightarrow> string \<Rightarrow> int \<Rightarrow> int \<Rightarrow> sector_figure" where
  "plot_sector_analysis sector_performance index_performance selected_sector from_year to_year =
     \<lparr>ax1_line = \<lparr>l_x = map fst sector_performance, l_y = map snd sector_performance,
                   l_label = [FStr selected_sector, Lit '' Sector''], l_color = ''blue''\<rparr>,
      ax2_line = \<lparr>l_x = map fst index_performance, l_y = map snd index_performance,
                   l_label = [Lit ''S&P 500 Index''], l_color = ''red''\<rparr>,
      ax1_xlabel = ''Year'',
      ax1_ylabel = [FStr selected_sector, Lit '' Sector Price''],
      ax2_ylabel = ''S&P 500 Index Price'',
      ax1_title = [Lit ''Sector Performance Analysis: '', FStr selected_sector, Lit '' ('',
                   FInt from_year, Lit ''-'', FInt to_year, Lit '')'']\<rparr>"

text \<open>
  \<open>SectorPerformanceGUI.perform_sector_analysis\<close>, with the texts of the combo box and
  of the two year fields as arguments. A non-empty validation message is shown and the
  handler returns; otherwise both fields go through \<open>int\<close>, the series are computed and
  plotted. Nothing looks at whether the series are empty.
\<close>

definition perform_sector_analysis ::
  "('c list \<Rightarrow> int option) \<Rightarrow> float_mean \<Rightarrow> parser \<Rightarrow> tables \<Rightarrow> string \<Rightarrow> 'c list \<Rightarrow> 'c list
     \<Rightarrow> (py_error + ui_event list) \<times> tables" where
  "perform_sector_analysis int_str fmean parse self selected_sector from_year to_year =
     (if validate_years int_str from_year to_year \<noteq> []
      then (Inr [MessageBoxWarning ''Input Error''
                   [FStr (validate_years int_str from_year to_year)]],
            self)
      else case int_str from_year of
        None \<Rightarrow> (Inl ValueError, self)
      | Some from_year_int \<Rightarrow>
          (case int_str to_year of
             None \<Rightarrow> (Inl ValueError, self)
           | Some to_year_int \<Rightarrow>
               (case filter_data_by_sector_and_year fmean parse self selected_sector
                       from_year_int to_year_int of
                  (Inl e, self') \<Rightarrow> (Inl e, self')
                | (Inr (sector_performance, index_performance), self') \<Rightarrow>
                    (Inr [ShowSectorFigure
                            (plot_sector_analysis sector_performance index_performance
                               selected_sector from_year_int to_year_int)],
                     self'))))"

subsection \<open>Revenue-growth view\<close>

text \<open>
  \<open>pd.merge(stocks, companies[["Symbol", "Sector", "Shortname", "Revenuegrowth"]],
  on="Symbol")\<close> is an inner join: the rows of the left table in their order, each once
  per company record of its Symbol, and not at all when there is none.
\<close>

definition merge_inner :: "stock_row list \<Rightarrow> company_row list \<Rightarrow> joined_row list" where
  "merge_inner left right =
     concat (map (\<lambda>s.
       map (\<lambda>c. \<lparr>j_stock = s, j_Sector = Sector c, j_Shortname = Shortname c,
                 j_Revenuegrowth = Revenuegrowth c\<rparr>)
         (filter (\<lambda>c. c_Symbol c = Symbol s) right))
       left)"

definition assign_j_Date :: "joined_row list \<Rightarrow> date_cell list \<Rightarrow> joined_row list" where
  "assign_j_Date df col = map (\<lambda>(r, d). r\<lparr>j_stock := (j_stock r)\<lparr>Date := d\<rparr>\<rparr>) (zip df col)"

definition assign_Year :: "joined_row list \<Rightarrow> revenue_row list" where
  \<comment> \<open>\<open>df["Year"] = df["Date"].dt.year\<close>: a new column.\<close>
  "assign_Year df =
     map (\<lambda>r. \<lparr>j_stock = j_stock r, j_Sector = j_Sector r, j_Shortname = j_Shortname r,
               j_Revenuegrowth = j_Revenuegrowth r, Year = cell_year (Date (j_stock r))\<rparr>) df"

text \<open>
  \<open>RevenueGrowthAnalysisGUI.merge_dataframes\<close>. The join comes first, the dates of the
  joined rows are converted on the joined table, which is a new one: the shared tables
  are read only, and returned here as they were.
\<close>

definition merge_dataframes ::
  "parser \<Rightarrow> tables \<Rightarrow> int \<Rightarrow> (py_error + revenue_row list) \<times> tables" where
  "merge_dataframes parse self selected_year =
     (let merged_df = merge_inner (stocks_df self) (companies_df self)
      in case to_datetime parse (map (Date \<circ> j_stock) merged_df) of
           Inl e \<Rightarrow> (Inl e, self)
         | Inr dates \<Rightarrow>
             (let merged_df1 = assign_j_Date merged_df dates;
                  merged_df2 = assign_Year merged_df1
              in (Inr (filter (\<lambda>r. Year r = Some selected_year) merged_df2), self)))"

definition plot_revenue_growth_vs_stock_performance :: "revenue_row list \<Rightarrow> int \<Rightarrow> scatter" where
  "plot_revenue_growth_vs_stock_performance merged_df selected_year =
     \<lparr>sc_data = merged_df, sc_x = ''Revenuegrowth'', sc_y = ''Close'', sc_color = ''Sector'',
      sc_hover_data = [''Shortname''],
      sc_title = [Lit ''Revenue Growth vs. Stock Performance ('', FInt selected_year, Lit '')''],
      sc_yaxis_title = ''Stock Performance'', sc_legend_title = ''Sector''\<rparr>"

text \<open>
  \<open>RevenueGrowthAnalysisGUI.perform_analysis\<close>; the year is the integer of the chosen
  entry of the combo box, which lists 2014 to 2024.
\<close>

definition perform_analysis ::
  "parser \<Rightarrow> tables \<Rightarrow> int \<Rightarrow> (py_error + ui_event list) \<times> tables" where
  "perform_analysis parse self selected_year =
     (case merge_dataframes parse self selected_year of
        (Inl e, self') \<Rightarrow> (Inl e, self')
      | (Inr merged_df, self') \<Rightarrow>
          if merged_df \<noteq> []
          then (Inr [ShowScatter (plot_revenue_growth_vs_stock_performance merged_df
                                    selected_year)], self')
          else (Inr [MessageBoxWarning ''No Data''
                       [Lit ''No data available for the year '', FInt selected_year, Lit ''.'']],
                self'))"

subsection \<open>Monthly view\<close>

text \<open>
  The constructor of \<open>MonthlyStockAnalysisGUI\<close> converts the Date column of the shared
  stock table in place. When the conversion raises, nothing has been assigned.
\<close>

definition monthly_init :: "parser \<Rightarrow> tables \<Rightarrow> py_error + tables" where
  "monthly_init parse self =
     (case to_datetime parse (map Date (stocks_df self)) of
        Inl e \<Rightarrow> Inl e
      | Inr dates \<Rightarrow> Inr (self\<lparr>stocks_df := assign_Date (stocks_df self) dates\<rparr>))"

text \<open>
  \<open>filter_stock_data\<close>. The symbol is element 0 of the symbols of the company records
  with the given short name, an IndexError when there is none. The accessor \<open>.dt\<close> is
  evaluated after that. Whether it raises goes by the dtype of the Date column and not by
  its cells: AttributeError unless the dtype is a datetime one. A column as loaded is of
  dtype object (texts, or no row at all) or float64 (no date in any row); the column that
  \<open>pd.to_datetime\<close> returns is of dtype datetime64 whatever it holds. So the table that
  the function takes is the rows together with the dtype of its Date column.
\<close>

datatype dtype = dtype_object | dtype_float64 | dtype_datetime64

record stock_frame =
  Date_dtype :: dtype
  df_rows :: "stock_row list"

definition resolve_symbol :: "company_row list \<Rightarrow> string \<Rightarrow> py_error + string" where
  \<comment> \<open>\<open>companies_df[companies_df["Shortname"] == company_shortname]["Symbol"].values[0]\<close>\<close>
  "resolve_symbol companies company_shortname =
     (case map c_Symbol (filter (\<lambda>c. Shortname c = Some company_shortname) companies) of
        [] \<Rightarrow> Inl IndexError
      | company_symbol # rest \<Rightarrow> Inr company_symbol)"

definition filter_stock_data ::
  "stock_frame \<Rightarrow> company_row list \<Rightarrow> string \<Rightarrow> int \<Rightarrow> int \<Rightarrow> py_error + stock_row list" where
  "filter_stock_data stock_df companies company_shortname month year =
     (case resolve_symbol companies company_shortname of
        Inl e \<Rightarrow> Inl e
      | Inr company_symbol \<Rightarrow>
          if Date_dtype stock_df \<noteq> dtype_datetime64 then Inl AttributeError
          else Inr (filter (\<lambda>r. Symbol r = company_symbol
                              \<and> cell_month (Date r) = Some month
                              \<and> cell_year (Date r) = Some year) (df_rows stock_df)))"

text \<open>
  \<open>idxmax\<close> and \<open>idxmin\<close> give the label of the first row that holds the extremum of the
  values present, and raise when every value is missing. A filtered table keeps the
  labels of its rows, which are distinct, so a label is modelled as the position of the
  row and \<open>.loc[label]\<close> as the row at that position.
\<close>

definition idxmax :: "real option list \<Rightarrow> py_error + nat" where
  "idxmax xs =
     (case series_max xs of
        None \<Rightarrow> Inl ValueError
      | Some m \<Rightarrow> Inr (length (takeWhile (\<lambda>x. x \<noteq> Some m) xs)))"

definition idxmin :: "real option list \<Rightarrow> py_error + nat" where
  "idxmin xs =
     (case series_min xs of
        None \<Rightarrow> Inl ValueError
      | Some m \<Rightarrow> Inr (length (takeWhile (\<lambda>x. x \<noteq> Some m) xs)))"

definition loc :: "'a list \<Rightarrow> nat \<Rightarrow> py_error + 'a" where
  "loc df label = (if label < length df then Inr (df ! label) else Inl KeyError)"

definition add_annotation :: "figure \<Rightarrow> annotation \<Rightarrow> figure" where
  "add_annotation fig a = fig\<lparr>annotations := annotations fig @ [a]\<rparr>"

definition add_trace :: "figure \<Rightarrow> trace \<Rightarrow> figure" where
  "add_trace fig t = fig\<lparr>traces := traces fig @ [t]\<rparr>"

definition isnull_all :: "real option list \<Rightarrow> bool" where
  \<comment> \<open>\<open>col.isnull().all()\<close>, true of the empty column.\<close>
  "isnull_all xs = list_all (\<lambda>x. x = None) xs"

text \<open>\<open>add_price_annotations\<close>: the figure is changed in place, so it is returned.\<close>

definition add_high_annotation :: "figure \<Rightarrow> stock_row list \<Rightarrow> real option \<Rightarrow> py_error + figure" where
  "add_high_annotation fig filtered_stock high_price =
     (if \<not> isnull_all (map High filtered_stock)
      then case idxmax (map High filtered_stock) of
             Inl e \<Rightarrow> Inl e
           | Inr label \<Rightarrow>
               (case loc filtered_stock label of
                  Inl e \<Rightarrow> Inl e
                | Inr row \<Rightarrow>
                    Inr (add_annotation fig
                          \<lparr>an_x = Date row, an_y = high_price,
                           an_text = [Lit ''Highest Price: '', FFloat high_price],
                           an_showarrow = True, an_arrowhead = 1\<rparr>))
      else Inr fig)"

definition add_low_annotation :: "figure \<Rightarrow> stock_row list \<Rightarrow> real option \<Rightarrow> py_error + figure" where
  "add_low_annotation fig filtered_stock low_price =
     (if \<not> isnull_all (map Low filtered_stock)
      then case idxmin (map Low filtered_stock) of
             Inl e \<Rightarrow> Inl e
           | Inr label \<Rightarrow>
               (case loc filtered_stock label of
                  Inl e \<Rightarrow> Inl e
                | Inr row \<Rightarrow>
                    Inr (add_annotation fig
                          \<lparr>an_x = Date row, an_y = low_price,
                           an_text = [Lit ''Lowest Price: '', FFloat low_price],
                           an_showarrow = True, an_arrowhead = 1\<rparr>))
      else Inr fig)"

definition add_price_annotations ::
  "figure \<Rightarrow> stock_row list \<Rightarrow> real option \<Rightarrow> real option \<Rightarrow> py_error + figure" where
  "add_price_annotations fig filtered_stock high_price low_price =
     (case add_high_annotation fig filtered_stock high_price of
        Inl e \<Rightarrow> Inl e
      | Inr fig1 \<Rightarrow> add_low_annotation fig1 filtered_stock low_price)"

definition go_Figure :: figure where
  "go_Figure = \<lparr>traces = [], annotations = [], fig_title = [], fig_xaxis_title = [],
                fig_yaxis_title = []\<rparr>"

definition plot_stock_prices ::
  "stock_row list \<Rightarrow> string \<Rightarrow> int \<Rightarrow> int \<Rightarrow> py_error + figure" where
  "plot_stock_prices filtered_stock company_shortname month year =
     (let high_price = series_max (map High filtered_stock);
          low_price = series_min (map Low filtered_stock);
          fig = go_Figure;
          fig1 = add_trace fig \<lparr>tr_x = map Date filtered_stock, tr_y = map High filtered_stock,
                                tr_mode = ''lines'', tr_name = ''High Price''\<rparr>;
          fig2 = add_trace fig1 \<lparr>tr_x = map Date filtered_stock, tr_y = map Low filtered_stock,
                                 tr_mode = ''lines'', tr_name = ''Low Price''\<rparr>
      in case add_price_annotations fig2 filtered_stock high_price low_price of
           Inl e \<Rightarrow> Inl e
         | Inr fig3 \<Rightarrow>
             Inr (fig3\<lparr>fig_title := [Lit ''Stock Prices for '', FStr company_shortname,
                                      Lit '' - '', FInt month, Lit ''/'', FInt year],
                       fig_xaxis_title := ''Date'', fig_yaxis_title := ''Price''\<rparr>))"

text \<open>
  \<open>MonthlyStockAnalysisGUI.analyze_stock\<close>, with the chosen short name, month and year.
  The handler belongs to a window whose constructor has assigned the converted column, so
  the Date column of \<open>self.stock_df\<close> is of dtype datetime64 when it runs.
\<close>

definition analyze_stock :: "tables \<Rightarrow> string \<Rightarrow> int \<Rightarrow> int \<Rightarrow> py_error + ui_event list" where
  "analyze_stock self company_shortname month year =
     (case filter_stock_data \<lparr>Date_dtype = dtype_datetime64, df_rows = stocks_df self\<rparr>
             (companies_df self) company_shortname month year of
        Inl e \<Rightarrow> Inl e
      | Inr filtered_stock \<Rightarrow>
          if filtered_stock \<noteq> []
          then case plot_stock_prices filtered_stock company_shortname month year of
                 Inl e \<Rightarrow> Inl e
               | Inr fig \<Rightarrow> Inr [ShowFigure fig]
          else Inr [MessageBoxWarning ''No Data'' [Lit ''Data available only until 02-2024'']])"

subsection \<open>The rows and dates of a sector\<close>

text \<open>
  What the sector view is to compute, said on the tables themselves and not on the join:
  the rows of a sector within a range of years are the pairs of a stock row and a company
  record of its Symbol whose Sector is the chosen one, with the date of the row a
  timestamp of a year in the range; the dates of the sector are the dates of those rows,
  and the closing prices on a date are those of the rows of that date. The stock rows
  meant are the loaded ones with their dates read, \<open>with_dates\<close>.
\<close>

definition readable :: "parser \<Rightarrow> date_cell \<Rightarrow> bool" where
  \<comment> \<open>\<open>pd.to_datetime\<close> does not raise on the cell.\<close>
  "readable parse c = (case to_datetime_cell parse c of Inl e \<Rightarrow> False | Inr d \<Rightarrow> True)"


definition in_years :: "date_cell \<Rightarrow> int \<Rightarrow> int \<Rightarrow> bool" where
  "in_years d from_year to_year =
     (case d of Datetime (Some t) \<Rightarrow> from_year \<le> dt_year t \<and> dt_year t \<le> to_year
      | _ \<Rightarrow> False)"

definition sector_rows ::
  "stock_row list \<Rightarrow> company_row list \<Rightarrow> string \<Rightarrow> int \<Rightarrow> int
     \<Rightarrow> (stock_row \<times> company_row) list" where
  "sector_rows stocks companies sector from_year to_year =
     [(s, c). s \<leftarrow> stocks, c \<leftarrow> companies,
              c_Symbol c = Symbol s \<and> Sector c = Some sector
              \<and> in_years (Date s) from_year to_year]"

definition sector_dates ::
  "stock_row list \<Rightarrow> company_row list \<Rightarrow> string \<Rightarrow> int \<Rightarrow> int \<Rightarrow> date_cell set" where
  "sector_dates stocks companies sector from_year to_year =
     (Date \<circ> fst) ` set (sector_rows stocks companies sector from_year to_year)"


subsection \<open>The rows of the revenue-growth view\<close>

text \<open>
  What the revenue-growth view is to compute, said as a join: for every stock row and every
  company record of its Symbol, when the converted date of the stock row is in the selected
  year, the row made of both. A stock row has a company when some record has its Symbol.
\<close>

definition joined_in_year ::
  "parser \<Rightarrow> stock_row list \<Rightarrow> company_row list \<Rightarrow> int \<Rightarrow> revenue_row list" where
  "joined_in_year parse stocks companies selected_year =
     [\<lparr>j_stock = s\<lparr>Date := converted parse (Date s)\<rparr>, j_Sector = Sector c,
       j_Shortname = Shortname c, j_Revenuegrowth = Revenuegrowth c,
       Year = Some selected_year\<rparr>.
        s \<leftarrow> stocks, c \<leftarrow> companies,
        c_Symbol c = Symbol s \<and> cell_year (converted parse (Date s)) = Some selected_year]"

definition has_company :: "company_row list \<Rightarrow> stock_row \<Rightarrow> bool" where
  "has_company companies s = list_ex (\<lambda>c. c_Symbol c = Symbol s) companies"

subsection \<open>A small data set\<close>

text \<open>
  An instance of the parameter \<open>parse\<close> and three small tables, on which the theorems
  below are run: dates are read as \<open>YYYY-MM-DD\<close>, the text \<open>NaT\<close> as NaT, and
  anything else is refused. The stock table has two rows of the Technology sector on one
  day of 2020, one on a day of 2019 with no closing price, and a row of a symbol that no
  company record has.
\<close>

definition iso_parse :: parser where
  "iso_parse s =
     (if s = ''NaT'' then Some None
      else if length s = 10 \<and> s ! 4 = CHR ''-'' \<and> s ! 7 = CHR ''-''
      then case unsigned_int (take 4 s) of
             None \<Rightarrow> None
           | Some y \<Rightarrow>
               (case unsigned_int (take 2 (drop 5 s)) of
                  None \<Rightarrow> None
                | Some m \<Rightarrow>
                    (case unsigned_int (drop 8 s) of
                       None \<Rightarrow> None
                     | Some d \<Rightarrow> Some (Some \<lparr>dt_year = y, dt_month = m, dt_day = d\<rparr>)))
      else None)"

definition sample_stocks :: "stock_row list" where
  "sample_stocks =
     [\<lparr>Symbol = ''AAPL'', Date = DateStr ''2020-01-02'', Open = Some 74, High = Some 75,
       Low = Some 73, Close = Some 75\<rparr>,
      \<lparr>Symbol = ''MSFT'', Date = DateStr ''2020-01-02'', Open = Some 158, High = Some 160,
       Low = Some 157, Close = Some 160\<rparr>,
      \<lparr>Symbol = ''AAPL'', Date = DateStr ''2019-05-06'', Open = None, High = None,
       Low = None, Close = None\<rparr>,
      \<lparr>Symbol = ''ZZZ'', Date = DateStr ''2020-01-02'', Open = Some 1, High = Some 2,
       Low = Some 1, Close = Some 2\<rparr>,
      \<lparr>Symbol = ''AAPL'', Date = DateStr ''2020-01-03'', Open = Some 74, High = Some 75,
       Low = Some 72, Close = Some 74\<rparr>]"

definition sample_companies :: "company_row list" where
  "sample_companies =
     [\<lparr>c_Symbol = ''AAPL'', Sector = Some ''Technology'', Shortname = Some ''Apple Inc.'',
       Longname = Some ''Apple Inc.'', Revenuegrowth = Some (1 / 10)\<rparr>,
      \<lparr>c_Symbol = ''MSFT'', Sector = Some ''Technology'', Shortname = Some ''Microsoft'',
       Longname = Some ''Microsoft Corporation'', Revenuegrowth = Some (1 / 5)\<rparr>,
      \<lparr>c_Symbol = ''XOM'', Sector = Some ''Energy'', Shortname = Some ''Exxon Mobil'',
       Longname = None, Revenuegrowth = None\<rparr>]"

definition sample_index :: "index_row list" where
  "sample_index =
     [\<lparr>i_Date = DateStr ''2019-05-06'', SP500 = Some 2932\<rparr>,
      \<lparr>i_Date = DateStr ''2020-01-02'', SP500 = Some 3257\<rparr>,
      \<lparr>i_Date = DateStr ''2020-01-03'', SP500 = Some 3234\<rparr>]"

definition sample_tables :: tables where
  "sample_tables =
     \<lparr>stocks_df = sample_stocks, companies_df = sample_companies, index_df = sample_index\<rparr>"

definition sample_mean :: float_mean where
  \<comment> \<open>The instance of \<open>fmean\<close> for the examples: the exact mean, which is the float64
      mean on the sample prices, whole numbers whose sums and halves are floats.\<close>
  "sample_mean xs = Some (sum_list xs / real (length xs))"


definition ts :: "int \<Rightarrow> int \<Rightarrow> int \<Rightarrow> date_cell" where
  \<comment> \<open>The timestamp of a calendar day, to write the examples.\<close>
  "ts y m d = Datetime (Some \<lparr>dt_year = y, dt_month = m, dt_day = d\<rparr>)"

definition sample_joined_2020 :: "revenue_row list" where
  "sample_joined_2020 =
     [\<lparr>j_stock = \<lparr>Symbol = ''AAPL'', Date = ts 2020 1 2, Open = Some 74, High = Some 75,
                   Low = Some 73, Close = Some 75\<rparr>,
       j_Sector = Some ''Technology'', j_Shortname = Some ''Apple Inc.'',
       j_Revenuegrowth = Some (1 / 10), Year = Some 2020\<rparr>,
      \<lparr>j_stock = \<lparr>Symbol = ''MSFT'', Date = ts 2020 1 2, Open = Some 158, High = Some 160,
                   Low = Some 157, Close = Some 160\<rparr>,
       j_Sector = Some ''Technology'', j_Shortname = Some ''Microsoft'',
       j_Revenuegrowth = Some (1 / 5), Year = Some 2020\<rparr>,
      \<lparr>j_stock = \<lparr>Symbol = ''AAPL'', Date = ts 2020 1 3, Open = Some 74, High = Some 75,
                   Low = Some 72, Close = Some 74\<rparr>,
       j_Sector = Some ''Technology'', j_Shortname = Some ''Apple Inc.'',
       j_Revenuegrowth = Some (1 / 10), Year = Some 2020\<rparr>]"

section \<open>Properties\<close>

subsection \<open>Validation of the year fields\<close>

lemma int_latin1_samples:
  "int_latin1 ''2014'' = Some 2014" "int_latin1 ''2020'' = Some 2020"
  "int_latin1 ''2021'' = Some 2021" "int_latin1 ''2013'' = Some 2013"
  "int_latin1 ''20x4'' = None" "int_latin1 ''2015'' = Some 2015"
  by code_simp+

text \<open>
  C1. For every two texts, of whatever code points, and whatever \<open>int\<close> reads:
  \<open>validate_years\<close> returns the empty message exactly when both texts have four code
  points, \<open>int\<close> reads both, both years lie in 2014 to 2024 and the first is at most the
  second. It returns a non-empty message exactly when a text has another length, or
  \<open>int\<close> refuses one, or a year lies outside 2014 to 2024, or the first year is greater
  than the second.
\<close>

theorem validate_years_correct:
  "(validate_years int_str from_year to_year = [] \<longleftrightarrow>
      length from_year = 4 \<and> length to_year = 4 \<and>
      (\<exists>a b. int_str from_year = Some a \<and> int_str to_year = Some b \<and>
         2014 \<le> a \<and> a \<le> 2024 \<and> 2014 \<le> b \<and> b \<le> 2024 \<and> a \<le> b))
   \<and> (validate_years int_str from_year to_year \<noteq> [] \<longleftrightarrow>
      length from_year \<noteq> 4 \<or> length to_year \<noteq> 4 \<or>
      int_str from_year = None \<or> int_str to_year = None \<or>
      (\<exists>a. int_str from_year = Some a \<and> (a < 2014 \<or> 2024 < a)) \<or>
      (\<exists>b. int_str to_year = Some b \<and> (b < 2014 \<or> 2024 < b)) \<or>
      (\<exists>a b. int_str from_year = Some a \<and> int_str to_year = Some b \<and> b < a))"
  by (auto simp: validate_years_def quoted_def split: option.splits)

theorem validate_years_correct_witness:
  "validate_years int_latin1 ''2014'' ''2020'' = []
   \<and> validate_years int_latin1 ''201'' ''2020'' \<noteq> []
   \<and> validate_years int_latin1 ''20x4'' ''2020'' \<noteq> []
   \<and> validate_years int_latin1 ''2013'' ''2020'' \<noteq> []
   \<and> validate_years int_latin1 ''2021'' ''2020'' \<noteq> []"
  using validate_years_correct [of int_latin1 "''2014''" "''2020''"]
        validate_years_correct [of int_latin1 "''201''" "''2020''"]
        validate_years_correct [of int_latin1 "''20x4''" "''2020''"]
        validate_years_correct [of int_latin1 "''2013''" "''2020''"]
        validate_years_correct [of int_latin1 "''2021''" "''2020''"]
  by (simp add: int_latin1_samples)

subsection \<open>Conversion of a Date column\<close>

lemma to_datetime_cell_idem:
  "to_datetime_cell parse c = Inr d \<Longrightarrow> to_datetime_cell parse d = Inr d"
  by (cases c) (auto split: option.splits)

lemma to_datetime_cell_error:
  "to_datetime_cell parse c = Inl e \<Longrightarrow> e = ValueError"
  by (cases c) (auto split: option.splits)

lemma to_datetime_length:
  "to_datetime parse cs = Inr ds \<Longrightarrow> length ds = length cs"
  by (induction cs arbitrary: ds) (auto split: sum.splits)

lemma to_datetime_converted:
  "to_datetime parse cs = Inr ds \<Longrightarrow> ds = map (converted parse) cs"
  by (induction cs arbitrary: ds) (auto split: sum.splits simp: converted_def)

lemma to_datetime_cells_ok:
  "to_datetime parse cs = Inr ds \<Longrightarrow> c \<in> set cs \<Longrightarrow>
   to_datetime_cell parse c = Inr (converted parse c)"
  by (induction cs arbitrary: ds) (auto split: sum.splits simp: converted_def)

lemma to_datetime_Inr_iff:
  "(\<exists>ds. to_datetime parse cs = Inr ds) \<longleftrightarrow>
   (\<forall>c \<in> set cs. \<exists>d. to_datetime_cell parse c = Inr d)"
  by (induction cs) (auto split: sum.splits)

lemma to_datetime_idem:
  "to_datetime parse cs = Inr ds \<Longrightarrow> to_datetime parse ds = Inr ds"
  by (induction cs arbitrary: ds) (auto split: sum.splits simp: to_datetime_cell_idem)

lemma to_datetime_ok:
  "\<forall>c \<in> set cs. \<exists>d. to_datetime_cell parse c = Inr d \<Longrightarrow>
   to_datetime parse cs = Inr (map (converted parse) cs)"
  by (induction cs) (auto simp: converted_def)

lemma readable_iff: "readable parse c \<longleftrightarrow> (\<exists>d. to_datetime_cell parse c = Inr d)"
  by (cases "to_datetime_cell parse c") (simp_all add: readable_def)

lemma to_datetime_readable:
  "list_all (readable parse) cs \<Longrightarrow> to_datetime parse cs = Inr (map (converted parse) cs)"
  by (rule to_datetime_ok) (simp add: list_all_iff readable_iff)

lemma to_datetime_unreadable:
  "\<not> list_all (readable parse) cs \<Longrightarrow> to_datetime parse cs = Inl ValueError"
proof (induction cs)
  case Nil
  then show ?case by simp
next
  case (Cons c cs)
  show ?case
  proof (cases "to_datetime_cell parse c")
    case (Inl e)
    then show ?thesis using to_datetime_cell_error [OF Inl] by simp
  next
    case (Inr d)
    then have "readable parse c" by (simp add: readable_def)
    with Cons.prems have "\<not> list_all (readable parse) cs" by simp
    from Cons.IH [OF this] Inr show ?thesis by simp
  qed
qed

lemma assign_Date_map:
  "assign_Date df (map g df) = map (\<lambda>r. r\<lparr>Date := g r\<rparr>) df"
  unfolding assign_Date_def by (induction df) auto

lemma assign_i_Date_map:
  "assign_i_Date df (map g df) = map (\<lambda>r. r\<lparr>i_Date := g r\<rparr>) df"
  unfolding assign_i_Date_def by (induction df) auto

lemma assign_j_Date_map:
  "assign_j_Date df (map g df) = map (\<lambda>r. r\<lparr>j_stock := (j_stock r)\<lparr>Date := g r\<rparr>\<rparr>) df"
  unfolding assign_j_Date_def by (induction df) auto

lemma map_Date_assign_Date:
  "length col = length df \<Longrightarrow> map Date (assign_Date df col) = col"
  unfolding assign_Date_def
  by (induction df col rule: list_induct2') auto

lemma map_i_Date_assign_i_Date:
  "length col = length df \<Longrightarrow> map i_Date (assign_i_Date df col) = col"
  unfolding assign_i_Date_def
  by (induction df col rule: list_induct2') auto

lemma assign_Date_twice:
  "length col = length df \<Longrightarrow> assign_Date (assign_Date df col) col = assign_Date df col"
  using assign_Date_map [of "assign_Date df col" Date] by (simp add: map_Date_assign_Date)

lemma assign_i_Date_twice:
  "length col = length df \<Longrightarrow> assign_i_Date (assign_i_Date df col) col = assign_i_Date df col"
  using assign_i_Date_map [of "assign_i_Date df col" i_Date]
  by (simp add: map_i_Date_assign_i_Date)

subsection \<open>The three outcomes of the sector filter\<close>

lemma filter_data_Inl1:
  "to_datetime parse (map Date (stocks_df self)) = Inl e \<Longrightarrow>
   filter_data_by_sector_and_year fmean parse self sel f t = (Inl e, self)"
  by (simp add: filter_data_by_sector_and_year_def)

lemma filter_data_Inl2:
  "to_datetime parse (map Date (stocks_df self)) = Inr sd \<Longrightarrow>
   to_datetime parse (map i_Date (index_df self)) = Inl e \<Longrightarrow>
   filter_data_by_sector_and_year fmean parse self sel f t
     = (Inl e, self\<lparr>stocks_df := assign_Date (stocks_df self) sd\<rparr>)"
  by (simp add: filter_data_by_sector_and_year_def)

lemma filter_data_Inr:
  "to_datetime parse (map Date (stocks_df self)) = Inr sd \<Longrightarrow>
   to_datetime parse (map i_Date (index_df self)) = Inr idd \<Longrightarrow>
   filter_data_by_sector_and_year fmean parse self sel f t
     = (Inr (sector_series fmean (assign_Date (stocks_df self) sd) (companies_df self) sel f t,
             index_series (assign_i_Date (index_df self) idd) f t),
        self\<lparr>stocks_df := assign_Date (stocks_df self) sd,
             index_df := assign_i_Date (index_df self) idd\<rparr>)"
  by (simp add: filter_data_by_sector_and_year_def sector_series_def index_series_def Let_def)



lemma filter_data_twice:
  assumes "filter_data_by_sector_and_year fmean parse self sel f t = (res, self')"
  shows "filter_data_by_sector_and_year fmean parse self' sel f t = (res, self')"
proof (cases "to_datetime parse (map Date (stocks_df self))")
  case (Inl e)
  with assms show ?thesis by (simp add: filter_data_Inl1)
next
  case sd: (Inr sd)
  have len: "length sd = length (stocks_df self)" using to_datetime_length [OF sd] by simp
  show ?thesis
  proof (cases "to_datetime parse (map i_Date (index_df self))")
    case (Inl e)
    from assms have r: "res = Inl e" "self' = self\<lparr>stocks_df := assign_Date (stocks_df self) sd\<rparr>"
      by (simp_all add: filter_data_Inl2 [OF sd Inl])
    have c1: "to_datetime parse (map Date (stocks_df self')) = Inr sd"
      using to_datetime_idem [OF sd] by (simp add: r map_Date_assign_Date len)
    have c2: "to_datetime parse (map i_Date (index_df self')) = Inl e"
      using Inl by (simp add: r)
    show ?thesis
      unfolding filter_data_Inl2 [OF c1 c2] by (simp add: r assign_Date_twice len)
  next
    case idd: (Inr idd)
    have leni: "length idd = length (index_df self)" using to_datetime_length [OF idd] by simp
    from assms have r:
      "res = Inr (sector_series fmean (assign_Date (stocks_df self) sd) (companies_df self) sel f t,
                  index_series (assign_i_Date (index_df self) idd) f t)"
      "self' = self\<lparr>stocks_df := assign_Date (stocks_df self) sd,
                     index_df := assign_i_Date (index_df self) idd\<rparr>"
      by (simp_all add: filter_data_Inr [OF sd idd])
    have c1: "to_datetime parse (map Date (stocks_df self')) = Inr sd"
      using to_datetime_idem [OF sd] by (simp add: r map_Date_assign_Date len)
    have c2: "to_datetime parse (map i_Date (index_df self')) = Inr idd"
      using to_datetime_idem [OF idd] by (simp add: r map_i_Date_assign_i_Date leni)
    show ?thesis
      unfolding filter_data_Inr [OF c1 c2]
      by (simp add: r assign_Date_twice len assign_i_Date_twice leni)
  qed
qed

lemma merge_dataframes_state: "snd (merge_dataframes parse self y) = self"
  by (simp add: merge_dataframes_def Let_def split: sum.splits)

text \<open>
  C9. Running the sector filter a second time, with the same sector and years, on the
  tables as the first run left them returns the same pair of series (or the same error)
  and leaves the tables as they were after the first run. \<open>merge_dataframes\<close> leaves the
  tables as it found them, and a second run returns what the first returned.
\<close>

theorem analyze_idempotent:
  "filter_data_by_sector_and_year fmean parse
      (snd (filter_data_by_sector_and_year fmean parse self selected_sector from_year to_year))
      selected_sector from_year to_year
    = filter_data_by_sector_and_year fmean parse self selected_sector from_year to_year
   \<and> snd (merge_dataframes parse self selected_year) = self
   \<and> merge_dataframes parse (snd (merge_dataframes parse self selected_year)) selected_year
    = merge_dataframes parse self selected_year"
proof -
  obtain res self' where
    r: "filter_data_by_sector_and_year fmean parse self selected_sector from_year to_year = (res, self')"
    by (cases "filter_data_by_sector_and_year fmean parse self selected_sector from_year to_year")
  show ?thesis using filter_data_twice [OF r] r by (simp add: merge_dataframes_state)
qed

lemma sample_sector_run:
  "fst (filter_data_by_sector_and_year sample_mean iso_parse sample_tables ''Technology'' 2019 2020)
   = Inr ([(ts 2019 5 6, None), (ts 2020 1 2, Some (235 / 2)), (ts 2020 1 3, Some 74)],
          [(ts 2019 5 6, Some 2932), (ts 2020 1 2, Some 3257), (ts 2020 1 3, Some 3234)])"
  by code_simp

theorem analyze_idempotent_witness:
  "fst (filter_data_by_sector_and_year sample_mean iso_parse
          (snd (filter_data_by_sector_and_year sample_mean iso_parse sample_tables ''Technology'' 2019 2020))
          ''Technology'' 2019 2020)
   = Inr ([(ts 2019 5 6, None), (ts 2020 1 2, Some (235 / 2)), (ts 2020 1 3, Some 74)],
          [(ts 2019 5 6, Some 2932), (ts 2020 1 2, Some 3257), (ts 2020 1 3, Some 3234)])
   \<and> snd (merge_dataframes iso_parse sample_tables 2020) = sample_tables"
  using analyze_idempotent [of sample_mean iso_parse sample_tables "''Technology''" 2019 2020 2020]
    sample_sector_run
  by simp

lemma stock_frame:
  assumes "to_datetime parse (map Date df) = Inr sd"
  shows "list_all2 (\<lambda>r r'. r' = r\<lparr>Date := Date r'\<rparr>
            \<and> to_datetime_cell parse (Date r) = Inr (Date r')) df (assign_Date df sd)"
proof -
  have sd: "sd = map (converted parse \<circ> Date) df"
    using to_datetime_converted [OF assms] by simp
  have "assign_Date df sd = map (\<lambda>r. r\<lparr>Date := converted parse (Date r)\<rparr>) df"
    unfolding sd using assign_Date_map [of df "converted parse \<circ> Date"] by simp
  moreover have "\<forall>r \<in> set df. to_datetime_cell parse (Date r) = Inr (converted parse (Date r))"
    using to_datetime_cells_ok [OF assms] by auto
  ultimately show ?thesis
    by (simp add: list_all2_map2 list_all2_same)
qed

lemma index_frame:
  assumes "to_datetime parse (map i_Date df) = Inr sd"
  shows "list_all2 (\<lambda>r r'. r' = r\<lparr>i_Date := i_Date r'\<rparr>
            \<and> to_datetime_cell parse (i_Date r) = Inr (i_Date r')) df (assign_i_Date df sd)"
proof -
  have sd: "sd = map (converted parse \<circ> i_Date) df"
    using to_datetime_converted [OF assms] by simp
  have "assign_i_Date df sd = map (\<lambda>r. r\<lparr>i_Date := converted parse (i_Date r)\<rparr>) df"
    unfolding sd using assign_i_Date_map [of df "converted parse \<circ> i_Date"] by simp
  moreover have "\<forall>r \<in> set df. to_datetime_cell parse (i_Date r) = Inr (converted parse (i_Date r))"
    using to_datetime_cells_ok [OF assms] by auto
  ultimately show ?thesis
    by (simp add: list_all2_map2 list_all2_same)
qed

lemma frame_refl_stock:
  "list_all2 (\<lambda>r r'. r' = r\<lparr>Date := Date r'\<rparr>
      \<and> (Date r' = Date r \<or> to_datetime_cell parse (Date r) = Inr (Date r'))) df df"
  by (simp add: list_all2_same)

lemma frame_refl_index:
  "list_all2 (\<lambda>r r'. r' = r\<lparr>i_Date := i_Date r'\<rparr>
      \<and> (i_Date r' = i_Date r \<or> to_datetime_cell parse (i_Date r) = Inr (i_Date r'))) df df"
  by (simp add: list_all2_same)

text \<open>
  C8. After \<open>filter_data_by_sector_and_year\<close> the company table is the one before the
  call. The stock table and the index table have the same rows in the same order, each
  row equal to the row before the call in every column but Date, and its Date either the
  one before the call or its conversion by \<open>pd.to_datetime\<close>.
\<close>

theorem filter_data_frame:
  "companies_df (snd (filter_data_by_sector_and_year fmean parse self selected_sector from_year to_year))
     = companies_df self
   \<and> list_all2 (\<lambda>r r'. r' = r\<lparr>Date := Date r'\<rparr>
        \<and> (Date r' = Date r \<or> to_datetime_cell parse (Date r) = Inr (Date r')))
       (stocks_df self)
       (stocks_df (snd (filter_data_by_sector_and_year fmean parse self selected_sector
                          from_year to_year)))
   \<and> list_all2 (\<lambda>r r'. r' = r\<lparr>i_Date := i_Date r'\<rparr>
        \<and> (i_Date r' = i_Date r \<or> to_datetime_cell parse (i_Date r) = Inr (i_Date r')))
       (index_df self)
       (index_df (snd (filter_data_by_sector_and_year fmean parse self selected_sector
                         from_year to_year)))"
proof (cases "to_datetime parse (map Date (stocks_df self))")
  case (Inl e)
  show ?thesis
    unfolding filter_data_Inl1 [OF Inl] by (simp add: list_all2_same)
next
  case sd: (Inr sd)
  have st: "list_all2 (\<lambda>r r'. r' = r\<lparr>Date := Date r'\<rparr>
        \<and> (Date r' = Date r \<or> to_datetime_cell parse (Date r) = Inr (Date r')))
       (stocks_df self) (assign_Date (stocks_df self) sd)"
    by (rule list_all2_mono [OF stock_frame [OF sd]]) simp
  show ?thesis
  proof (cases "to_datetime parse (map i_Date (index_df self))")
    case (Inl e)
    show ?thesis
      unfolding filter_data_Inl2 [OF sd Inl] using st by (simp add: list_all2_same)
  next
    case idd: (Inr idd)
    have ix: "list_all2 (\<lambda>r r'. r' = r\<lparr>i_Date := i_Date r'\<rparr>
        \<and> (i_Date r' = i_Date r \<or> to_datetime_cell parse (i_Date r) = Inr (i_Date r')))
       (index_df self) (assign_i_Date (index_df self) idd)"
      by (rule list_all2_mono [OF index_frame [OF idd]]) simp
    show ?thesis
      unfolding filter_data_Inr [OF sd idd] using st ix by simp
  qed
qed

theorem filter_data_frame_witness:
  "companies_df (snd (filter_data_by_sector_and_year sample_mean iso_parse sample_tables
                        ''Technology'' 2019 2020)) = sample_companies
   \<and> length (stocks_df (snd (filter_data_by_sector_and_year sample_mean iso_parse sample_tables
                        ''Technology'' 2019 2020))) = 5
   \<and> length (index_df (snd (filter_data_by_sector_and_year sample_mean iso_parse sample_tables
                        ''Technology'' 2019 2020))) = 3"
  using filter_data_frame [of sample_mean iso_parse sample_tables "''Technology''" 2019 2020]
  by (auto dest: list_all2_lengthD
           simp: sample_tables_def sample_stocks_def sample_index_def)

subsection \<open>The two series of the sector view\<close>

lemma year_between_in_years: "year_between d f t = in_years d f t"
  by (cases d rule: cell_year.cases) (auto simp: year_between_def in_years_def)

lemma in_yearsD:
  "in_years d f t \<Longrightarrow> \<exists>ts. d = Datetime (Some ts) \<and> f \<le> dt_year ts \<and> dt_year ts \<le> t"
  by (auto simp: in_years_def split: date_cell.splits option.splits)

lemma set_group_keys: "set (group_keys col) = {t. Datetime (Some t) \<in> set col}"
proof -
  have "set (List.map_filter (\<lambda>d. case d of Datetime (Some t) \<Rightarrow> Some t | _ \<Rightarrow> None) col)
        = {t. Datetime (Some t) \<in> set col}"
    by (induction col) (auto split: date_cell.splits option.splits)
  then show ?thesis by (simp add: group_keys_def)
qed



lemma groupby_index:
  "map fst (groupby_Date_Close_mean fmean df) = map (Datetime \<circ> Some) (group_keys (map (Date \<circ> stock) df))"
  by (simp add: groupby_Date_Close_mean_def comp_def)

lemma merge_left_row:
  "map stock (filter (\<lambda>r. m_Sector r = Some sel \<and> Q (stock r))
      (map (\<lambda>c. \<lparr>stock = s, m_Sector = Sector c, m_Longname = Longname c\<rparr>)
         (filter (\<lambda>c. c_Symbol c = Symbol s) companies)))
   = map fst (concat (map (\<lambda>c. if c_Symbol c = Symbol s \<and> Sector c = Some sel \<and> Q s
                                 then [(s, c)] else []) companies))"
  by (induction companies) auto

lemma merge_left_sector:
  "map stock (filter (\<lambda>r. m_Sector r = Some sel \<and> Q (stock r)) (merge_left stocks companies))
   = map fst [(s, c). s \<leftarrow> stocks, c \<leftarrow> companies,
                      c_Symbol c = Symbol s \<and> Sector c = Some sel \<and> Q s]"
proof (induction stocks)
  case Nil
  show ?case by (simp add: merge_left_def)
next
  case (Cons s stocks)
  have row: "map stock (filter (\<lambda>r. m_Sector r = Some sel \<and> Q (stock r))
       (case filter (\<lambda>c. c_Symbol c = Symbol s) companies of
          [] \<Rightarrow> [\<lparr>stock = s, m_Sector = None, m_Longname = None\<rparr>]
        | c # cs \<Rightarrow> map (\<lambda>c. \<lparr>stock = s, m_Sector = Sector c, m_Longname = Longname c\<rparr>) (c # cs)))
     = map fst (concat (map (\<lambda>c. if c_Symbol c = Symbol s \<and> Sector c = Some sel \<and> Q s
                                 then [(s, c)] else []) companies))"
  proof (cases "filter (\<lambda>c. c_Symbol c = Symbol s) companies")
    case Nil
    then have "\<forall>c \<in> set companies. c_Symbol c \<noteq> Symbol s"
      by (simp add: filter_empty_conv)
    then have "concat (map (\<lambda>c. if c_Symbol c = Symbol s \<and> Sector c = Some sel \<and> Q s
                                 then [(s, c)] else []) companies) = []"
      by (induction companies) auto
    with Nil show ?thesis by simp
  next
    case (Cons c cs)
    show ?thesis
      using merge_left_row [of sel Q s companies] unfolding Cons by simp
  qed
  from Cons.IH row show ?case
    by (simp add: merge_left_def)
qed


lemma filter_data_success:
  assumes "filter_data_by_sector_and_year fmean parse self sel f t = (Inr (sp, ip), self')"
  shows "sp = sector_series fmean (stocks_df self') (companies_df self') sel f t"
    and "ip = index_series (index_df self') f t"
proof -
  obtain sd where sd: "to_datetime parse (map Date (stocks_df self)) = Inr sd"
    using assms by (cases "to_datetime parse (map Date (stocks_df self))")
      (auto simp: filter_data_Inl1)
  obtain idd where idd: "to_datetime parse (map i_Date (index_df self)) = Inr idd"
    using assms sd by (cases "to_datetime parse (map i_Date (index_df self))")
      (auto simp: filter_data_Inl2)
  from assms show "sp = sector_series fmean (stocks_df self') (companies_df self') sel f t"
    and "ip = index_series (index_df self') f t"
    unfolding filter_data_Inr [OF sd idd] by auto
qed

lemma sector_df_rows:
  "map stock (filter (\<lambda>r. m_Sector r = Some sel \<and> year_between (Date (stock r)) f t)
      (merge_left stocks companies))
   = map fst (sector_rows stocks companies sel f t)"
  using merge_left_sector [of sel "\<lambda>s. year_between (Date s) f t" stocks companies]
  by (simp add: sector_rows_def year_between_in_years)

lemma sector_series_index:
  "map fst (sector_series fmean stocks companies sel f t)
   = map (Datetime \<circ> Some)
       (group_keys (map (Date \<circ> fst) (sector_rows stocks companies sel f t)))"
proof -
  have "map (Date \<circ> stock) (filter (\<lambda>r. m_Sector r = Some sel
            \<and> year_between (Date (stock r)) f t) (merge_left stocks companies))
        = map (Date \<circ> fst) (sector_rows stocks companies sel f t)"
    using arg_cong [OF sector_df_rows [of sel f t stocks companies], of "map Date"]
    by simp
  then show ?thesis by (simp add: sector_series_def groupby_index)
qed

lemma sector_rows_dates:
  "(s, c) \<in> set (sector_rows stocks companies sel f t) \<Longrightarrow> in_years (Date s) f t"
  by (auto simp: sector_rows_def)

lemma sector_series_dates:
  "set (map fst (sector_series fmean stocks companies sel f t)) = sector_dates stocks companies sel f t"
proof -
  have "(Datetime \<circ> Some) ` {ts. Datetime (Some ts)
            \<in> (Date \<circ> fst) ` set (sector_rows stocks companies sel f t)}
        = (Date \<circ> fst) ` set (sector_rows stocks companies sel f t)"
  proof (intro equalityI subsetI)
    fix d assume "d \<in> (Date \<circ> fst) ` set (sector_rows stocks companies sel f t)"
    then obtain s c where sc: "(s, c) \<in> set (sector_rows stocks companies sel f t)" "d = Date s"
      by auto
    from in_yearsD [OF sector_rows_dates [OF sc(1)]] obtain ts where "Date s = Datetime (Some ts)"
      by blast
    with sc show "d \<in> (Datetime \<circ> Some) ` {ts. Datetime (Some ts)
            \<in> (Date \<circ> fst) ` set (sector_rows stocks companies sel f t)}"
      by force
  qed auto
  then show ?thesis
    unfolding sector_series_index sector_dates_def by (simp add: set_group_keys image_comp)
qed





lemma index_series_dates:
  "d \<in> set (map fst (index_series idx f t)) \<Longrightarrow> in_years d f t"
  by (auto simp: index_series_def year_between_in_years)



lemma sample_sector_pair:
  "filter_data_by_sector_and_year sample_mean iso_parse sample_tables ''Technology'' 2019 2020
   = (Inr ([(ts 2019 5 6, None), (ts 2020 1 2, Some (235 / 2)), (ts 2020 1 3, Some 74)],
           [(ts 2019 5 6, Some 2932), (ts 2020 1 2, Some 3257), (ts 2020 1 3, Some 3234)]),
      snd (filter_data_by_sector_and_year sample_mean iso_parse sample_tables ''Technology'' 2019 2020))"
  using sample_sector_run by (metis prod.collapse)

text \<open>
  C2. Every date of the sector series and every date of the index series that
  \<open>filter_data_by_sector_and_year\<close> returns is a timestamp whose year lies between
  \<open>from_year\<close> and \<open>to_year\<close>, both included. This holds for every sector name and every
  two years, so for \<open>from_year \<le> to_year\<close> within 2014 to 2024.
\<close>

theorem sector_filter_years_in_range:
  assumes "filter_data_by_sector_and_year fmean parse self selected_sector from_year to_year
           = (Inr (sector_performance, index_performance), self')"
  shows "(\<forall>d \<in> set (map fst sector_performance).
            \<exists>t. d = Datetime (Some t) \<and> from_year \<le> dt_year t \<and> dt_year t \<le> to_year)
       \<and> (\<forall>d \<in> set (map fst index_performance).
            \<exists>t. d = Datetime (Some t) \<and> from_year \<le> dt_year t \<and> dt_year t \<le> to_year)"
proof (intro conjI ballI)
  fix d assume "d \<in> set (map fst sector_performance)"
  then have "d \<in> sector_dates (stocks_df self') (companies_df self') selected_sector
                    from_year to_year"
    using filter_data_success(1) [OF assms] sector_series_dates by simp
  then have "in_years d from_year to_year"
    by (auto simp: sector_dates_def dest: sector_rows_dates)
  then show "\<exists>t. d = Datetime (Some t) \<and> from_year \<le> dt_year t \<and> dt_year t \<le> to_year"
    by (rule in_yearsD)
next
  fix d assume "d \<in> set (map fst index_performance)"
  then have "in_years d from_year to_year"
    using filter_data_success(2) [OF assms] index_series_dates by simp
  then show "\<exists>t. d = Datetime (Some t) \<and> from_year \<le> dt_year t \<and> dt_year t \<le> to_year"
    by (rule in_yearsD)
qed

theorem sector_filter_years_in_range_witness:
  "(\<exists>t. ts 2019 5 6 = Datetime (Some t) \<and> 2019 \<le> dt_year t \<and> dt_year t \<le> 2020)
   \<and> (\<exists>t. ts 2020 1 3 = Datetime (Some t) \<and> 2019 \<le> dt_year t \<and> dt_year t \<le> 2020)"
  using sector_filter_years_in_range [OF sample_sector_pair] by simp



subsection \<open>Monthly view: the lookup of the symbol\<close>

lemma resolve_symbol_none:
  "\<forall>c \<in> set companies. Shortname c \<noteq> Some name \<Longrightarrow>
   resolve_symbol companies name = Inl IndexError"
  by (simp add: resolve_symbol_def)

lemma resolve_symbol_first:
  "\<forall>b \<in> set before. Shortname b \<noteq> Some name \<Longrightarrow> Shortname c = Some name \<Longrightarrow>
   resolve_symbol (before @ c # after) name = Inr (c_Symbol c)"
  by (simp add: resolve_symbol_def)

text \<open>
  C5. When no company record has the short name, the lookup of the symbol raises
  IndexError, \<open>filter_stock_data\<close> raises it, whatever the stock table, and so does the
  handler \<open>analyze_stock\<close>, which catches nothing. When some record has it, the symbol is
  that of the first such record in the order of the table; then \<open>.dt\<close> raises
  AttributeError when the Date column is not of a datetime dtype, and otherwise the rows
  of that symbol, month and year are returned.
\<close>

theorem filter_stock_data_resolves:
  "((\<forall>c \<in> set companies. Shortname c \<noteq> Some company_shortname) \<longrightarrow>
      resolve_symbol companies company_shortname = Inl IndexError
      \<and> filter_stock_data stock_df companies company_shortname month year = Inl IndexError
      \<and> analyze_stock \<lparr>stocks_df = stocks, companies_df = companies, index_df = idx\<rparr>
            company_shortname month year = Inl IndexError)
   \<and> (\<forall>before c after.
        companies = before @ c # after
        \<and> (\<forall>b \<in> set before. Shortname b \<noteq> Some company_shortname)
        \<and> Shortname c = Some company_shortname \<longrightarrow>
        resolve_symbol companies company_shortname = Inr (c_Symbol c)
        \<and> filter_stock_data stock_df companies company_shortname month year
            = (if Date_dtype stock_df \<noteq> dtype_datetime64 then Inl AttributeError
               else Inr (filter (\<lambda>r. Symbol r = c_Symbol c
                                     \<and> cell_month (Date r) = Some month
                                     \<and> cell_year (Date r) = Some year) (df_rows stock_df))))"
proof (intro conjI impI allI)
  assume none: "\<forall>c \<in> set companies. Shortname c \<noteq> Some company_shortname"
  show r: "resolve_symbol companies company_shortname = Inl IndexError"
    by (rule resolve_symbol_none [OF none])
  show "filter_stock_data stock_df companies company_shortname month year = Inl IndexError"
    by (simp add: filter_stock_data_def r)
  show "analyze_stock \<lparr>stocks_df = stocks, companies_df = companies, index_df = idx\<rparr>
          company_shortname month year = Inl IndexError"
    by (simp add: analyze_stock_def filter_stock_data_def r)
next
  fix before c after
  assume a: "companies = before @ c # after
        \<and> (\<forall>b \<in> set before. Shortname b \<noteq> Some company_shortname)
        \<and> Shortname c = Some company_shortname"
  then show r: "resolve_symbol companies company_shortname = Inr (c_Symbol c)"
    using resolve_symbol_first [of before company_shortname c after] by simp
  show "filter_stock_data stock_df companies company_shortname month year
            = (if Date_dtype stock_df \<noteq> dtype_datetime64 then Inl AttributeError
               else Inr (filter (\<lambda>r. Symbol r = c_Symbol c
                                     \<and> cell_month (Date r) = Some month
                                     \<and> cell_year (Date r) = Some year) (df_rows stock_df)))"
    by (simp add: filter_stock_data_def r)
qed

theorem filter_stock_data_resolves_witness:
  "filter_stock_data \<lparr>Date_dtype = dtype_object, df_rows = sample_stocks\<rparr>
      sample_companies ''Nobody'' 1 2020 = Inl IndexError
   \<and> resolve_symbol sample_companies ''Microsoft'' = Inr ''MSFT''
   \<and> filter_stock_data \<lparr>Date_dtype = dtype_object, df_rows = []\<rparr>
        sample_companies ''Microsoft'' 1 2020 = Inl AttributeError
   \<and> filter_stock_data \<lparr>Date_dtype = dtype_datetime64, df_rows = []\<rparr>
        sample_companies ''Microsoft'' 1 2020 = Inr []"
proof -
  have n: "\<forall>c \<in> set sample_companies. Shortname c \<noteq> Some ''Nobody''"
    by (simp add: sample_companies_def)
  have m: "sample_companies
      = [\<lparr>c_Symbol = ''AAPL'', Sector = Some ''Technology'', Shortname = Some ''Apple Inc.'',
          Longname = Some ''Apple Inc.'', Revenuegrowth = Some (1 / 10)\<rparr>]
        @ \<lparr>c_Symbol = ''MSFT'', Sector = Some ''Technology'', Shortname = Some ''Microsoft'',
           Longname = Some ''Microsoft Corporation'', Revenuegrowth = Some (1 / 5)\<rparr>
        # [\<lparr>c_Symbol = ''XOM'', Sector = Some ''Energy'', Shortname = Some ''Exxon Mobil'',
             Longname = None, Revenuegrowth = None\<rparr>]"
    by (simp add: sample_companies_def)
  have b: "\<forall>b \<in> set [\<lparr>c_Symbol = ''AAPL'', Sector = Some ''Technology'',
          Shortname = Some ''Apple Inc.'', Longname = Some ''Apple Inc.'',
          Revenuegrowth = Some (1 / 10)\<rparr>]. Shortname b \<noteq> Some ''Microsoft''"
    by simp
  note t = filter_stock_data_resolves [where companies = sample_companies and month = 1
      and year = 2020 and stocks = "[]" and idx = "[]"]
  from t [where company_shortname = "''Nobody''"
      and stock_df = "\<lparr>Date_dtype = dtype_object, df_rows = sample_stocks\<rparr>"] n
  have 1: "filter_stock_data \<lparr>Date_dtype = dtype_object, df_rows = sample_stocks\<rparr>
      sample_companies ''Nobody'' 1 2020 = Inl IndexError"
    by blast
  have 2: "resolve_symbol sample_companies ''Microsoft'' = Inr ''MSFT''"
    using t [where company_shortname = "''Microsoft''"
        and stock_df = "\<lparr>Date_dtype = dtype_object, df_rows = []\<rparr>",
        THEN conjunct2, rule_format, OF conjI [OF m conjI [OF b]]]
    by simp
  have 3: "filter_stock_data \<lparr>Date_dtype = dtype_object, df_rows = []\<rparr>
        sample_companies ''Microsoft'' 1 2020 = Inl AttributeError"
    using t [where company_shortname = "''Microsoft''"
        and stock_df = "\<lparr>Date_dtype = dtype_object, df_rows = []\<rparr>",
        THEN conjunct2, rule_format, OF conjI [OF m conjI [OF b]]]
    by simp
  have 4: "filter_stock_data \<lparr>Date_dtype = dtype_datetime64, df_rows = []\<rparr>
        sample_companies ''Microsoft'' 1 2020 = Inr []"
    using t [where company_shortname = "''Microsoft''"
        and stock_df = "\<lparr>Date_dtype = dtype_datetime64, df_rows = []\<rparr>",
        THEN conjunct2, rule_format, OF conjI [OF m conjI [OF b]]]
    by simp
  from 1 2 3 4 show ?thesis by simp
qed

subsection \<open>Monthly view: the annotations\<close>

lemma set_present: "set (present xs) = {x. Some x \<in> set xs}"
  unfolding present_def by (induction xs) (auto split: option.splits)

lemma present_empty_iff: "present xs = [] \<longleftrightarrow> isnull_all xs"
  unfolding present_def isnull_all_def by (induction xs) (auto split: option.splits)

lemma isnull_all_rows: "isnull_all (map f rows) \<longleftrightarrow> \<not> (\<exists>r \<in> set rows. f r \<noteq> None)"
  by (auto simp: isnull_all_def list_all_iff)

lemma series_max_Max:
  assumes "present xs \<noteq> []"
  shows "series_max xs = Some (Max (set (present xs)))"
proof (cases "present xs")
  case Nil
  with assms show ?thesis by simp
next
  case (Cons y ys)
  have "Max (set (y # ys)) = fold max ys y" by (rule Max.set_eq_fold)
  then show ?thesis by (simp add: series_max_def Cons)
qed

lemma series_min_Min:
  assumes "present xs \<noteq> []"
  shows "series_min xs = Some (Min (set (present xs)))"
proof (cases "present xs")
  case Nil
  with assms show ?thesis by simp
next
  case (Cons y ys)
  have "Min (set (y # ys)) = fold min ys y" by (rule Min.set_eq_fold)
  then show ?thesis by (simp add: series_min_def Cons)
qed

lemma first_position:
  assumes "v \<in> set xs"
  shows "length (takeWhile (\<lambda>x. x \<noteq> v) xs) < length xs
       \<and> xs ! length (takeWhile (\<lambda>x. x \<noteq> v) xs) = v"
proof -
  have "takeWhile (\<lambda>x. x \<noteq> v) xs \<noteq> xs"
    using assms by (auto simp: takeWhile_eq_all_conv)
  then have l: "length (takeWhile (\<lambda>x. x \<noteq> v) xs) < length xs"
    using length_takeWhile_le [of "\<lambda>x. x \<noteq> v" xs]
    by (metis le_neq_implies_less takeWhile_eq_take take_all order_refl)
  from nth_length_takeWhile [OF l] l show ?thesis by simp
qed

lemma idxmax_row:
  assumes "\<not> isnull_all (map f rows)"
  shows "\<exists>i. idxmax (map f rows) = Inr i \<and> i < length rows
            \<and> f (rows ! i) = series_max (map f rows)"
proof -
  from assms have ne: "present (map f rows) \<noteq> []" by (simp add: present_empty_iff)
  let ?m = "Max (set (present (map f rows)))"
  have m: "series_max (map f rows) = Some ?m" by (rule series_max_Max [OF ne])
  have "?m \<in> set (present (map f rows))" using ne by (intro Max_in) auto
  then have "Some ?m \<in> set (map f rows)" by (simp add: set_present)
  from first_position [OF this]
  have l: "length (takeWhile (\<lambda>x. x \<noteq> Some ?m) (map f rows)) < length rows"
    and e: "map f rows ! length (takeWhile (\<lambda>x. x \<noteq> Some ?m) (map f rows)) = Some ?m"
    by simp_all
  from e l have "f (rows ! length (takeWhile (\<lambda>x. x \<noteq> Some ?m) (map f rows))) = Some ?m"
    by (simp only: nth_map)
  with l show ?thesis
    by (simp only: idxmax_def m sum.inject option.case) blast
qed

lemma idxmin_row:
  assumes "\<not> isnull_all (map f rows)"
  shows "\<exists>i. idxmin (map f rows) = Inr i \<and> i < length rows
            \<and> f (rows ! i) = series_min (map f rows)"
proof -
  from assms have ne: "present (map f rows) \<noteq> []" by (simp add: present_empty_iff)
  let ?m = "Min (set (present (map f rows)))"
  have m: "series_min (map f rows) = Some ?m" by (rule series_min_Min [OF ne])
  have "?m \<in> set (present (map f rows))" using ne by (intro Min_in) auto
  then have "Some ?m \<in> set (map f rows)" by (simp add: set_present)
  from first_position [OF this]
  have l: "length (takeWhile (\<lambda>x. x \<noteq> Some ?m) (map f rows)) < length rows"
    and e: "map f rows ! length (takeWhile (\<lambda>x. x \<noteq> Some ?m) (map f rows)) = Some ?m"
    by simp_all
  from e l have "f (rows ! length (takeWhile (\<lambda>x. x \<noteq> Some ?m) (map f rows))) = Some ?m"
    by (simp only: nth_map)
  with l show ?thesis
    by (simp only: idxmin_def m sum.inject option.case) blast
qed

lemma add_high_annotation_result:
  "\<exists>hi. add_high_annotation fig rows (series_max (map High rows))
          = Inr (fig\<lparr>annotations := annotations fig @ hi\<rparr>)
     \<and> (if \<exists>r \<in> set rows. High r \<noteq> None
         then \<exists>a. hi = [a]
                \<and> an_y a = Some (Max (set (present (map High rows))))
                \<and> an_text a = [Lit ''Highest Price: '', FFloat (an_y a)]
                \<and> (\<exists>r \<in> set rows. High r = an_y a \<and> an_x a = Date r)
         else hi = [])"
proof (cases "isnull_all (map High rows)")
  case True
  then have "add_high_annotation fig rows (series_max (map High rows))
             = Inr (fig\<lparr>annotations := annotations fig @ []\<rparr>)"
    by (simp add: add_high_annotation_def)
  moreover from True have "\<not> (\<exists>r \<in> set rows. High r \<noteq> None)"
    by (simp add: isnull_all_rows)
  ultimately show ?thesis by (intro exI [of _ "[]"]) simp
next
  case False
  from idxmax_row [OF False] obtain i where
    i: "idxmax (map High rows) = Inr i" "i < length rows"
       "High (rows ! i) = series_max (map High rows)"
    by blast
  from False have ne: "present (map High rows) \<noteq> []" by (simp add: present_empty_iff)
  let ?a = "\<lparr>an_x = Date (rows ! i), an_y = series_max (map High rows),
             an_text = [Lit ''Highest Price: '', FFloat (series_max (map High rows))],
             an_showarrow = True, an_arrowhead = 1\<rparr>"
  have "add_high_annotation fig rows (series_max (map High rows))
        = Inr (fig\<lparr>annotations := annotations fig @ [?a]\<rparr>)"
    using False i by (simp add: add_high_annotation_def loc_def add_annotation_def)
  moreover from False have "\<exists>r \<in> set rows. High r \<noteq> None"
    by (simp add: isnull_all_rows)
  moreover have "an_y ?a = Some (Max (set (present (map High rows))))"
    by (simp add: series_max_Max [OF ne])
  moreover have "\<exists>r \<in> set rows. High r = an_y ?a \<and> an_x ?a = Date r"
    using i by (intro bexI [of _ "rows ! i"]) simp_all
  ultimately show ?thesis
    by (intro exI [of _ "[?a]"]) (simp del: set_map)
qed

lemma add_low_annotation_result:
  "\<exists>lo. add_low_annotation fig rows (series_min (map Low rows))
          = Inr (fig\<lparr>annotations := annotations fig @ lo\<rparr>)
     \<and> (if \<exists>r \<in> set rows. Low r \<noteq> None
         then \<exists>a. lo = [a]
                \<and> an_y a = Some (Min (set (present (map Low rows))))
                \<and> an_text a = [Lit ''Lowest Price: '', FFloat (an_y a)]
                \<and> (\<exists>r \<in> set rows. Low r = an_y a \<and> an_x a = Date r)
         else lo = [])"
proof (cases "isnull_all (map Low rows)")
  case True
  then have "add_low_annotation fig rows (series_min (map Low rows))
             = Inr (fig\<lparr>annotations := annotations fig @ []\<rparr>)"
    by (simp add: add_low_annotation_def)
  moreover from True have "\<not> (\<exists>r \<in> set rows. Low r \<noteq> None)"
    by (simp add: isnull_all_rows)
  ultimately show ?thesis by (intro exI [of _ "[]"]) simp
next
  case False
  from idxmin_row [OF False] obtain i where
    i: "idxmin (map Low rows) = Inr i" "i < length rows"
       "Low (rows ! i) = series_min (map Low rows)"
    by blast
  from False have ne: "present (map Low rows) \<noteq> []" by (simp add: present_empty_iff)
  let ?a = "\<lparr>an_x = Date (rows ! i), an_y = series_min (map Low rows),
             an_text = [Lit ''Lowest Price: '', FFloat (series_min (map Low rows))],
             an_showarrow = True, an_arrowhead = 1\<rparr>"
  have "add_low_annotation fig rows (series_min (map Low rows))
        = Inr (fig\<lparr>annotations := annotations fig @ [?a]\<rparr>)"
    using False i by (simp add: add_low_annotation_def loc_def add_annotation_def)
  moreover from False have "\<exists>r \<in> set rows. Low r \<noteq> None"
    by (simp add: isnull_all_rows)
  moreover have "an_y ?a = Some (Min (set (present (map Low rows))))"
    by (simp add: series_min_Min [OF ne])
  moreover have "\<exists>r \<in> set rows. Low r = an_y ?a \<and> an_x ?a = Date r"
    using i by (intro bexI [of _ "rows ! i"]) simp_all
  ultimately show ?thesis
    by (intro exI [of _ "[?a]"]) (simp del: set_map)
qed


text \<open>
  C6. \<open>plot_stock_prices\<close> always returns a figure. Its annotations are the high
  annotation, present exactly when some row of the window has a High, followed by the low
  annotation, present exactly when some row has a Low. The value of the high annotation
  is the maximum of the Highs present, that of the low annotation the minimum of the Lows
  present, and each stands at the date of a row that has this value.
\<close>

theorem monthly_annotations:
  "\<exists>fig hi lo.
     plot_stock_prices filtered_stock company_shortname month year = Inr fig
     \<and> annotations fig = hi @ lo
     \<and> (if \<exists>r \<in> set filtered_stock. High r \<noteq> None
         then \<exists>a. hi = [a]
                \<and> an_y a = Some (Max (set (present (map High filtered_stock))))
                \<and> an_text a = [Lit ''Highest Price: '', FFloat (an_y a)]
                \<and> (\<exists>r \<in> set filtered_stock. High r = an_y a \<and> an_x a = Date r)
         else hi = [])
     \<and> (if \<exists>r \<in> set filtered_stock. Low r \<noteq> None
         then \<exists>a. lo = [a]
                \<and> an_y a = Some (Min (set (present (map Low filtered_stock))))
                \<and> an_text a = [Lit ''Lowest Price: '', FFloat (an_y a)]
                \<and> (\<exists>r \<in> set filtered_stock. Low r = an_y a \<and> an_x a = Date r)
         else lo = [])"
proof -
  let ?fig2 = "add_trace
      (add_trace go_Figure \<lparr>tr_x = map Date filtered_stock, tr_y = map High filtered_stock,
                             tr_mode = ''lines'', tr_name = ''High Price''\<rparr>)
      \<lparr>tr_x = map Date filtered_stock, tr_y = map Low filtered_stock,
       tr_mode = ''lines'', tr_name = ''Low Price''\<rparr>"
  have a0: "annotations ?fig2 = []" by (simp add: add_trace_def go_Figure_def)
  from add_high_annotation_result [of ?fig2 filtered_stock] obtain hi where
    hi: "add_high_annotation ?fig2 filtered_stock (series_max (map High filtered_stock))
          = Inr (?fig2\<lparr>annotations := annotations ?fig2 @ hi\<rparr>)"
    and hi_ok: "if \<exists>r \<in> set filtered_stock. High r \<noteq> None
         then \<exists>a. hi = [a]
                \<and> an_y a = Some (Max (set (present (map High filtered_stock))))
                \<and> an_text a = [Lit ''Highest Price: '', FFloat (an_y a)]
                \<and> (\<exists>r \<in> set filtered_stock. High r = an_y a \<and> an_x a = Date r)
         else hi = []"
    by blast
  let ?fig3 = "?fig2\<lparr>annotations := annotations ?fig2 @ hi\<rparr>"
  from add_low_annotation_result [of ?fig3 filtered_stock] obtain lo where
    lo: "add_low_annotation ?fig3 filtered_stock (series_min (map Low filtered_stock))
          = Inr (?fig3\<lparr>annotations := annotations ?fig3 @ lo\<rparr>)"
    and lo_ok: "if \<exists>r \<in> set filtered_stock. Low r \<noteq> None
         then \<exists>a. lo = [a]
                \<and> an_y a = Some (Min (set (present (map Low filtered_stock))))
                \<and> an_text a = [Lit ''Lowest Price: '', FFloat (an_y a)]
                \<and> (\<exists>r \<in> set filtered_stock. Low r = an_y a \<and> an_x a = Date r)
         else lo = []"
    by blast
  let ?fig = "(?fig3\<lparr>annotations := annotations ?fig3 @ lo\<rparr>)
      \<lparr>fig_title := [Lit ''Stock Prices for '', FStr company_shortname, Lit '' - '',
                      FInt month, Lit ''/'', FInt year],
       fig_xaxis_title := ''Date'', fig_yaxis_title := ''Price''\<rparr>"
  have run: "plot_stock_prices filtered_stock company_shortname month year = Inr ?fig"
    unfolding plot_stock_prices_def Let_def add_price_annotations_def hi
    by (simp only: sum.case lo)
  have an: "annotations ?fig = hi @ lo" by (simp add: a0)
  from run an hi_ok lo_ok show ?thesis by blast
qed

theorem monthly_annotations_witness:
  "\<exists>fig. plot_stock_prices
            [\<lparr>Symbol = ''AAPL'', Date = ts 2020 1 2, Open = Some 74, High = Some 75,
              Low = None, Close = Some 75\<rparr>,
             \<lparr>Symbol = ''AAPL'', Date = ts 2020 1 3, Open = Some 74, High = Some 76,
              Low = None, Close = Some 74\<rparr>] ''Apple Inc.'' 1 2020 = Inr fig
         \<and> map an_y (annotations fig) = [Some 76]"
proof -
  let ?rows = "[\<lparr>Symbol = ''AAPL'', Date = ts 2020 1 2, Open = Some 74, High = Some 75,
              Low = None, Close = Some 75\<rparr>,
             \<lparr>Symbol = ''AAPL'', Date = ts 2020 1 3, Open = Some 74, High = Some 76,
              Low = None, Close = Some 74\<rparr>]"
  from monthly_annotations [of ?rows "''Apple Inc.''" 1 2020] obtain fig hi lo where
    run: "plot_stock_prices ?rows ''Apple Inc.'' 1 2020 = Inr fig"
    and an: "annotations fig = hi @ lo"
    and h: "if \<exists>r \<in> set ?rows. High r \<noteq> None
         then \<exists>a. hi = [a]
                \<and> an_y a = Some (Max (set (present (map High ?rows))))
                \<and> an_text a = [Lit ''Highest Price: '', FFloat (an_y a)]
                \<and> (\<exists>r \<in> set ?rows. High r = an_y a \<and> an_x a = Date r)
         else hi = []"
    and l: "if \<exists>r \<in> set ?rows. Low r \<noteq> None
         then \<exists>a. lo = [a]
                \<and> an_y a = Some (Min (set (present (map Low ?rows))))
                \<and> an_text a = [Lit ''Lowest Price: '', FFloat (an_y a)]
                \<and> (\<exists>r \<in> set ?rows. Low r = an_y a \<and> an_x a = Date r)
         else lo = []"
    by blast
  have p: "present (map High ?rows) = [75, 76]" by (simp add: present_def)
  have c: "\<exists>r \<in> set ?rows. High r \<noteq> None" by simp
  from h obtain a where "hi = [a]" "an_y a = Some (Max (set (present (map High ?rows))))"
    unfolding if_P [OF c] by blast
  then have hi: "map an_y hi = [Some 76]" unfolding p by simp
  have "\<not> (\<exists>r \<in> set ?rows. Low r \<noteq> None)" by simp
  with l have lo: "lo = []" by (simp only: if_False)
  from run an hi lo show ?thesis by simp
qed

subsection \<open>Revenue-growth view: the join\<close>


lemma joined_row_of_stock:
  "filter (\<lambda>r. Year r = Some y)
     (assign_Year (map (\<lambda>r. r\<lparr>j_stock := (j_stock r)\<lparr>Date := g (Date (j_stock r))\<rparr>\<rparr>)
        (map (\<lambda>c. \<lparr>j_stock = s, j_Sector = Sector c, j_Shortname = Shortname c,
                   j_Revenuegrowth = Revenuegrowth c\<rparr>)
           (filter (\<lambda>c. c_Symbol c = Symbol s) companies))))
   = concat (map (\<lambda>c. if c_Symbol c = Symbol s \<and> cell_year (g (Date s)) = Some y
        then [\<lparr>j_stock = s\<lparr>Date := g (Date s)\<rparr>, j_Sector = Sector c,
               j_Shortname = Shortname c, j_Revenuegrowth = Revenuegrowth c,
               Year = Some y\<rparr>]
        else []) companies)"
  by (induction companies) (auto simp: assign_Year_def)

lemma joined_rows:
  "filter (\<lambda>r. Year r = Some y)
     (assign_Year (map (\<lambda>r. r\<lparr>j_stock := (j_stock r)\<lparr>Date := converted parse (Date (j_stock r))\<rparr>\<rparr>)
        (merge_inner stocks companies)))
   = joined_in_year parse stocks companies y"
proof (induction stocks)
  case Nil
  show ?case by (simp add: merge_inner_def joined_in_year_def assign_Year_def)
next
  case (Cons s stocks)
  have split: "merge_inner (s # stocks) companies
      = map (\<lambda>c. \<lparr>j_stock = s, j_Sector = Sector c, j_Shortname = Shortname c,
                   j_Revenuegrowth = Revenuegrowth c\<rparr>)
           (filter (\<lambda>c. c_Symbol c = Symbol s) companies)
        @ merge_inner stocks companies"
    by (simp add: merge_inner_def)
  have spec: "joined_in_year parse (s # stocks) companies y
      = concat (map (\<lambda>c. if c_Symbol c = Symbol s \<and> cell_year (converted parse (Date s)) = Some y
        then [\<lparr>j_stock = s\<lparr>Date := converted parse (Date s)\<rparr>, j_Sector = Sector c,
               j_Shortname = Shortname c, j_Revenuegrowth = Revenuegrowth c,
               Year = Some y\<rparr>]
        else []) companies)
        @ joined_in_year parse stocks companies y"
    by (simp add: joined_in_year_def)
  show ?case
    unfolding split spec
    using Cons.IH joined_row_of_stock [of y "converted parse" s companies]
    by (simp add: assign_Year_def)
qed

lemma joined_in_year_dates:
  "r \<in> set (joined_in_year parse stocks companies y) \<Longrightarrow>
   \<exists>t. Date (j_stock r) = Datetime (Some t) \<and> dt_year t = y"
  by (auto simp: joined_in_year_def elim!: cell_year.elims)

lemma one_company:
  assumes "distinct (map c_Symbol companies)"
  shows "map f (concat (map (\<lambda>c. if c_Symbol c = k \<and> Q then [g c] else []) companies))
         = (if list_ex (\<lambda>c. c_Symbol c = k) companies \<and> Q
            then [f (g (the (find (\<lambda>c. c_Symbol c = k) companies)))] else [])"
  using assms
proof (induction companies)
  case Nil
  show ?case by simp
next
  case (Cons c companies)
  show ?case
  proof (cases "c_Symbol c = k")
    case True
    from Cons.prems have "c_Symbol c \<notin> c_Symbol ` set companies" by simp
    with True have "\<not> list_ex (\<lambda>c. c_Symbol c = k) companies"
      unfolding list_ex_iff by (metis imageI)
    with Cons True show ?thesis by simp
  next
    case False
    with Cons show ?thesis by simp
  qed
qed

lemma joined_in_year_stocks:
  assumes "distinct (map c_Symbol companies)"
  shows "map j_stock (joined_in_year parse stocks companies y)
         = map (\<lambda>s. s\<lparr>Date := converted parse (Date s)\<rparr>)
             (filter (\<lambda>s. has_company companies s
                         \<and> cell_year (converted parse (Date s)) = Some y) stocks)"
proof (induction stocks)
  case Nil
  show ?case by (simp add: joined_in_year_def)
next
  case (Cons s stocks)
  have "joined_in_year parse (s # stocks) companies y
      = concat (map (\<lambda>c. if c_Symbol c = Symbol s \<and> cell_year (converted parse (Date s)) = Some y
        then [\<lparr>j_stock = s\<lparr>Date := converted parse (Date s)\<rparr>, j_Sector = Sector c,
               j_Shortname = Shortname c, j_Revenuegrowth = Revenuegrowth c,
               Year = Some y\<rparr>]
        else []) companies)
        @ joined_in_year parse stocks companies y"
    by (simp add: joined_in_year_def)
  then show ?case
    using Cons.IH one_company [OF assms, of j_stock "Symbol s"
        "cell_year (converted parse (Date s)) = Some y"
        "\<lambda>c. \<lparr>j_stock = s\<lparr>Date := converted parse (Date s)\<rparr>, j_Sector = Sector c,
               j_Shortname = Shortname c, j_Revenuegrowth = Revenuegrowth c,
               Year = Some y\<rparr>"]
    by (simp add: has_company_def)
qed



lemma has_company_iff:
  "has_company companies s \<longleftrightarrow> (\<exists>c \<in> set companies. c_Symbol c = Symbol s)"
  by (simp add: has_company_def list_ex_iff)

lemma merge_inner_dates:
  "set (map (Date \<circ> j_stock) (merge_inner stocks companies))
   = Date ` {s \<in> set stocks. has_company companies s}"
proof (intro equalityI subsetI)
  fix d assume "d \<in> set (map (Date \<circ> j_stock) (merge_inner stocks companies))"
  then obtain s c where "s \<in> set stocks" "c \<in> set companies" "c_Symbol c = Symbol s"
    "d = Date s"
    by (auto simp: merge_inner_def)
  then show "d \<in> Date ` {s \<in> set stocks. has_company companies s}"
    by (auto simp: has_company_iff)
next
  fix d assume "d \<in> Date ` {s \<in> set stocks. has_company companies s}"
  then obtain s c where "s \<in> set stocks" "c \<in> set companies" "c_Symbol c = Symbol s"
    "d = Date s"
    by (auto simp: has_company_iff)
  then show "d \<in> set (map (Date \<circ> j_stock) (merge_inner stocks companies))"
    by (force simp: merge_inner_def)
qed

lemma joined_dates_readable:
  "list_all (readable parse) (map (Date \<circ> j_stock) (merge_inner stocks companies))
   \<longleftrightarrow> list_all (\<lambda>s. has_company companies s \<longrightarrow> readable parse (Date s)) stocks"
proof -
  have "list_all (readable parse) (map (Date \<circ> j_stock) (merge_inner stocks companies))
        \<longleftrightarrow> (\<forall>c \<in> set (map (Date \<circ> j_stock) (merge_inner stocks companies)). readable parse c)"
    by (simp only: list_all_iff)
  also have "\<dots> \<longleftrightarrow> (\<forall>s \<in> set stocks. has_company companies s \<longrightarrow> readable parse (Date s))"
    unfolding merge_inner_dates by auto
  finally show ?thesis by (simp only: list_all_iff)
qed

lemma merge_dataframes_run:
  "merge_dataframes parse self y
   = (if list_all (\<lambda>s. has_company (companies_df self) s \<longrightarrow> readable parse (Date s))
           (stocks_df self)
      then Inr (joined_in_year parse (stocks_df self) (companies_df self) y)
      else Inl ValueError, self)"
proof (cases "list_all (readable parse)
         (map (Date \<circ> j_stock) (merge_inner (stocks_df self) (companies_df self)))")
  case True
  let ?m = "merge_inner (stocks_df self) (companies_df self)"
  have d: "to_datetime parse (map (Date \<circ> j_stock) ?m)
           = Inr (map (converted parse \<circ> (Date \<circ> j_stock)) ?m)"
    using to_datetime_readable [OF True] by simp
  have a: "assign_j_Date ?m (map (converted parse \<circ> (Date \<circ> j_stock)) ?m)
      = map (\<lambda>r. r\<lparr>j_stock := (j_stock r)\<lparr>Date := converted parse (Date (j_stock r))\<rparr>\<rparr>) ?m"
    using assign_j_Date_map [of ?m "converted parse \<circ> (Date \<circ> j_stock)"] by simp
  have "merge_dataframes parse self y
        = (Inr (joined_in_year parse (stocks_df self) (companies_df self) y), self)"
    unfolding merge_dataframes_def Let_def d
    by (simp only: sum.case a joined_rows)
  with True show ?thesis by (simp only: joined_dates_readable if_True)
next
  case False
  have "merge_dataframes parse self y = (Inl ValueError, self)"
    unfolding merge_dataframes_def Let_def to_datetime_unreadable [OF False] by simp
  with False show ?thesis by (simp only: joined_dates_readable if_False)
qed

text \<open>
  C7. \<open>merge_dataframes\<close> returns when \<open>pd.to_datetime\<close> reads the date of every stock
  row that has a company record, and raises ValueError otherwise; the shared tables are
  as before. What it returns is the join of the stock and company tables on Symbol
  restricted to the rows whose date is in the selected year: one row for every stock row
  and company record of the same Symbol, in the order of the stock table, with the prices
  of the stock row, its date converted, and \<open>Sector\<close>, \<open>Shortname\<close> and \<open>Revenuegrowth\<close>
  of the company record; every date of the result is a timestamp of that year. With one
  company record per Symbol the result has one row for each stock row of the year whose
  Symbol has a company record, and with one stock row per Symbol and date no two rows of
  the result have the same Symbol and date.
\<close>

theorem merge_dataframes_joined_in_year:
  "merge_dataframes parse self selected_year
     = (if list_all (\<lambda>s. has_company (companies_df self) s \<longrightarrow> readable parse (Date s))
             (stocks_df self)
        then Inr (joined_in_year parse (stocks_df self) (companies_df self) selected_year)
        else Inl ValueError, self)
   \<and> (\<forall>r \<in> set (joined_in_year parse (stocks_df self) (companies_df self) selected_year).
        \<exists>t. Date (j_stock r) = Datetime (Some t) \<and> dt_year t = selected_year)
   \<and> (distinct (map c_Symbol (companies_df self)) \<longrightarrow>
        map j_stock (joined_in_year parse (stocks_df self) (companies_df self) selected_year)
          = map (\<lambda>s. s\<lparr>Date := converted parse (Date s)\<rparr>)
              (filter (\<lambda>s. has_company (companies_df self) s
                          \<and> cell_year (converted parse (Date s)) = Some selected_year)
                 (stocks_df self))
        \<and> (distinct (map (\<lambda>s. (Symbol s, converted parse (Date s))) (stocks_df self)) \<longrightarrow>
             distinct (map (\<lambda>r. (Symbol (j_stock r), Date (j_stock r)))
               (joined_in_year parse (stocks_df self) (companies_df self) selected_year))))"
proof -
  let ?S = "stocks_df self" and ?C = "companies_df self"
  let ?J = "joined_in_year parse ?S ?C selected_year"
  have y: "\<forall>r \<in> set ?J. \<exists>t. Date (j_stock r) = Datetime (Some t) \<and> dt_year t = selected_year"
    using joined_in_year_dates by blast
  have u: "map j_stock ?J
              = map (\<lambda>s. s\<lparr>Date := converted parse (Date s)\<rparr>)
                  (filter (\<lambda>s. has_company ?C s
                              \<and> cell_year (converted parse (Date s)) = Some selected_year) ?S)"
    if "distinct (map c_Symbol ?C)"
    by (rule joined_in_year_stocks [OF that])
  have d: "distinct (map (\<lambda>r. (Symbol (j_stock r), Date (j_stock r))) ?J)"
    if c: "distinct (map c_Symbol ?C)"
      and s: "distinct (map (\<lambda>s. (Symbol s, converted parse (Date s))) ?S)"
  proof -
    have "map (\<lambda>r. (Symbol (j_stock r), Date (j_stock r))) ?J
          = map (\<lambda>s. (Symbol s, Date s)) (map j_stock ?J)"
      by simp
    also have "\<dots> = map (\<lambda>s. (Symbol s, converted parse (Date s)))
          (filter (\<lambda>s. has_company ?C s
                      \<and> cell_year (converted parse (Date s)) = Some selected_year) ?S)"
      unfolding u [OF c] by simp
    finally show ?thesis
      using distinct_map_filter [OF s] by simp
  qed
  from merge_dataframes_run [of parse self selected_year] y u d show ?thesis by blast
qed

lemma sample_merge_run:
  "merge_dataframes iso_parse sample_tables 2020 = (Inr sample_joined_2020, sample_tables)"
  by code_simp

lemma sample_joined:
  "list_all (\<lambda>s. has_company (companies_df sample_tables) s \<longrightarrow> readable iso_parse (Date s))
     (stocks_df sample_tables)"
  "joined_in_year iso_parse (stocks_df sample_tables) (companies_df sample_tables) 2020
   = sample_joined_2020"
  by code_simp+

lemma sample_keys:
  "distinct (map c_Symbol (companies_df sample_tables))"
  "distinct (map (\<lambda>s. (Symbol s, converted iso_parse (Date s))) (stocks_df sample_tables))"
  by code_simp+

theorem merge_dataframes_joined_in_year_witness:
  "merge_dataframes iso_parse sample_tables 2020 = (Inr sample_joined_2020, sample_tables)
   \<and> length sample_joined_2020 = 3
   \<and> distinct (map (\<lambda>r. (Symbol (j_stock r), Date (j_stock r))) sample_joined_2020)"
  using merge_dataframes_joined_in_year [of iso_parse sample_tables 2020] sample_keys
  by (simp add: sample_joined sample_joined_2020_def)

subsection \<open>Stock rows without a company record\<close>









lemma has_company_Date [simp]:
  "has_company companies (r\<lparr>Date := d\<rparr>) = has_company companies r"
  by (simp add: has_company_def)













subsection \<open>Empty results in the three handlers\<close>

lemma perform_analysis_no_data:
  "merge_dataframes parse self selected_year = (Inr [], self') \<Longrightarrow>
   perform_analysis parse self selected_year
   = (Inr [MessageBoxWarning ''No Data''
             [Lit ''No data available for the year '', FInt selected_year, Lit ''.'']], self')"
  by (simp add: perform_analysis_def)

lemma perform_analysis_chart:
  "merge_dataframes parse self selected_year = (Inr merged_df, self') \<Longrightarrow> merged_df \<noteq> [] \<Longrightarrow>
   perform_analysis parse self selected_year
   = (Inr [ShowScatter (plot_revenue_growth_vs_stock_performance merged_df selected_year)],
      self')"
  by (simp add: perform_analysis_def)

lemma analyze_stock_no_data:
  "filter_stock_data \<lparr>Date_dtype = dtype_datetime64, df_rows = stocks_df self\<rparr>
     (companies_df self) company_shortname month year = Inr [] \<Longrightarrow>
   analyze_stock self company_shortname month year
   = Inr [MessageBoxWarning ''No Data'' [Lit ''Data available only until 02-2024'']]"
  by (simp add: analyze_stock_def)

lemma perform_sector_analysis_events:
  assumes "perform_sector_analysis int_str fmean parse self selected_sector from_year to_year = (Inr evs, self')"
  shows "evs = [MessageBoxWarning ''Input Error'' [FStr (validate_years int_str from_year to_year)]]
         \<or> (\<exists>fig. evs = [ShowSectorFigure fig])"
  using assms
  by (auto simp: perform_sector_analysis_def split: if_splits option.splits prod.splits sum.splits)

text \<open>
  C4. The revenue-growth view and the monthly view show a ``No Data'' message box and no
  chart when the filtered table is empty (the three lemmas above). The sector view has no
  such test: on the sample tables, for the sector Energy and the years 2014 to 2015, both
  series are empty and the handler shows the figure with two empty lines, and no message.
\<close>

theorem sector_view_empty_chart:
  "fst (perform_sector_analysis int_latin1 sample_mean iso_parse sample_tables ''Energy'' ''2014'' ''2015'')
   = Inr [ShowSectorFigure (plot_sector_analysis [] [] ''Energy'' 2014 2015)]
   \<and> fst (filter_data_by_sector_and_year sample_mean iso_parse sample_tables ''Energy'' 2014 2015)
     = Inr ([], [])"
  by code_simp

end
